theory Spec2Isabelle
  imports Main
begin

section \<open>The host: exceptions, local storage, JSON\<close>

text \<open>
  The page in \<^verbatim>\<open>src/routes/player.tsx\<close> runs inside a browser (or, when rendered on a
  server, outside one). What it calls of the host is modelled here: the exceptions a
  call can raise, \<^verbatim>\<open>window.localStorage\<close>, and the two JSON functions.
\<close>

datatype exn = ReferenceError | SecurityError | QuotaExceededError | SyntaxError | TypeError

text \<open>
  A computation that may throw yields \<open>Inl\<close> of the exception or \<open>Inr\<close> of its value.
  \<open>bind_exn\<close> is sequencing (a throw skips the rest), \<open>try_catch\<close> is the
  \<^verbatim>\<open>try { ... } catch (e) { ... }\<close> statement.
\<close>

definition bind_exn :: "exn + 'a \<Rightarrow> ('a \<Rightarrow> exn + 'b) \<Rightarrow> exn + 'b" where
  "bind_exn m f = (case m of Inl e \<Rightarrow> Inl e | Inr x \<Rightarrow> f x)"

definition try_catch :: "exn + 'a \<Rightarrow> (exn \<Rightarrow> exn + 'a) \<Rightarrow> exn + 'a" where
  "try_catch body handler = (case body of Inl e \<Rightarrow> handler e | Inr x \<Rightarrow> Inr x)"

text \<open>
  Durable storage: the stored items, and the exception (if any) that reading or
  writing raises in this browser: a denied access on reads, an exceeded quota on
  writes.
\<close>

record localStorage =
  items :: "string \<rightharpoonup> string"
  read_fault :: "exn option"
  write_fault :: "exn option"

definition getItem :: "localStorage \<Rightarrow> string \<Rightarrow> exn + string option" where
  "getItem st key = (case read_fault st of Some e \<Rightarrow> Inl e | None \<Rightarrow> Inr (items st key))"

definition setItem :: "localStorage \<Rightarrow> string \<Rightarrow> string \<Rightarrow> exn + localStorage" where
  "setItem st key v =
     (case write_fault st of
        Some e \<Rightarrow> Inl e
      | None \<Rightarrow> Inr (st\<lparr>items := (items st)(key \<mapsto> v)\<rparr>))"

text \<open>\<open>NoWindow\<close> is the environment in which \<^verbatim>\<open>typeof window === "undefined"\<close>.\<close>

datatype host = NoWindow | Window localStorage

definition window_localStorage :: "host \<Rightarrow> exn + localStorage" where
  "window_localStorage h = (case h of NoWindow \<Rightarrow> Inl ReferenceError | Window st \<Rightarrow> Inr st)"

text \<open>
  \<^verbatim>\<open>JSON.stringify\<close> and \<^verbatim>\<open>JSON.parse\<close> at the type \<open>'a\<close> of a stored value. They are
  functions of the language, not of this repository, so they are parameters of the
  model; either may throw.
\<close>

record 'a json =
  JSON_stringify :: "'a \<Rightarrow> exn + string"
  JSON_parse :: "string \<Rightarrow> exn + 'a"

section \<open>The persisted preference store: \<^verbatim>\<open>useLocalStorageState\<close>\<close>

text \<open>
  \<open>useLocalStorageState j h key initialValue\<close> is the state the hook starts with: the
  initialiser passed to \<^verbatim>\<open>useState\<close> (lines 38-46).
\<close>

definition useLocalStorageState :: "'a json \<Rightarrow> host \<Rightarrow> string \<Rightarrow> 'a \<Rightarrow> exn + 'a" where
  "useLocalStorageState j h key initialValue =
     (case h of
        NoWindow \<Rightarrow> Inr initialValue
      | Window st \<Rightarrow>
          try_catch
            (bind_exn (getItem st key) (\<lambda>item.
               case item of Some s \<Rightarrow> JSON_parse j s | None \<Rightarrow> Inr initialValue))
            (\<lambda>e. Inr initialValue))"

text \<open>
  The setter (lines 48-55). \<open>persist j key v h\<close> is the body of its \<^verbatim>\<open>try\<close> block, the
  write to storage; \<open>setValue j key v h\<close> is the whole setter: the host after the
  attempted write, and the new in-memory state.
\<close>

definition persist :: "'a json \<Rightarrow> string \<Rightarrow> 'a \<Rightarrow> host \<Rightarrow> exn + host" where
  "persist j key v h =
     bind_exn (window_localStorage h) (\<lambda>st.
     bind_exn (JSON_stringify j v) (\<lambda>s.
     bind_exn (setItem st key s) (\<lambda>st'. Inr (Window st'))))"

definition setValue :: "'a json \<Rightarrow> string \<Rightarrow> 'a \<Rightarrow> host \<Rightarrow> exn + (host \<times> 'a)" where
  "setValue j key v h =
     bind_exn (try_catch (persist j key v h) (\<lambda>e. Inr h)) (\<lambda>h'. Inr (h', v))"

section \<open>The debugger component: data\<close>

record LogEntry =
  timestamp :: string
  event :: string
  data :: string

text \<open>
  \<^verbatim>\<open>ProgressState\<close> is what the player reports; \<^verbatim>\<open>PlayerState\<close> has the same four fields
  and \<^verbatim>\<open>duration\<close>. The type \<open>'n\<close> stands for the numbers of the language (doubles),
  which the model does not look into.
\<close>

record 'n ProgressState =
  played :: 'n
  playedSeconds :: 'n
  loaded :: 'n
  loadedSeconds :: 'n

record 'n PlayerState = "'n ProgressState" +
  duration :: 'n

text \<open>
  The player instance behind \<^verbatim>\<open>playerRef.current\<close>: what its two queries answer, and the
  positions it has been asked to seek to, oldest first.
\<close>

record 'n ReactPlayer =
  getCurrentTime :: 'n
  getDuration :: 'n
  seekRequests :: "'n list"

definition player_seekTo :: "'n \<Rightarrow> 'n ReactPlayer \<Rightarrow> 'n ReactPlayer" where
  "player_seekTo seconds p = p\<lparr>seekRequests := seekRequests p @ [seconds]\<rparr>"

text \<open>The values the handlers put into a log payload: strings and numbers.\<close>

datatype 'n jsvalue = JString string | JNumber 'n

type_synonym 'n payload = "(string \<times> 'n jsvalue) list"

text \<open>
  The functions of the language and the browser that the component calls, as
  parameters: the JSON functions at the two stored types, the JSON text of a string
  and of a number, \<^verbatim>\<open>toFixed(2)\<close>, the number a literal or \<^verbatim>\<open>parseFloat\<close> denotes,
  multiplication and division, \<^verbatim>\<open>toLocaleTimeString\<close> of the clock reading (in
  milliseconds), and \<^verbatim>\<open>String(error)\<close>.
\<close>

record ('n, 'e) builtins =
  json_bool :: "bool json"
  json_number :: "'n json"
  quote_text :: "string \<Rightarrow> string"
  number_text :: "'n \<Rightarrow> string"
  toFixed2 :: "'n \<Rightarrow> string"
  num_lit :: "string \<Rightarrow> 'n"
  parseFloat :: "string \<Rightarrow> 'n"
  num_mul :: "'n \<Rightarrow> 'n \<Rightarrow> 'n"
  num_div :: "'n \<Rightarrow> 'n \<Rightarrow> 'n"
  toLocaleTimeString :: "nat \<Rightarrow> string"
  toString :: "'e \<Rightarrow> string"

text \<open>\<^verbatim>\<open>JSON.stringify(data)\<close> on a payload; the empty payload gives \<^verbatim>\<open>{}\<close>.\<close>

fun join_comma :: "string list \<Rightarrow> string" where
  "join_comma [] = []"
| "join_comma [x] = x"
| "join_comma (x # y # ys) = x @ '','' @ join_comma (y # ys)"

definition stringify_value :: "('n, 'e) builtins \<Rightarrow> 'n jsvalue \<Rightarrow> string" where
  "stringify_value js v = (case v of JString s \<Rightarrow> quote_text js s | JNumber n \<Rightarrow> number_text js n)"

definition stringify_data :: "('n, 'e) builtins \<Rightarrow> 'n payload \<Rightarrow> string" where
  "stringify_data js d =
     ''{'' @ join_comma (map (\<lambda>(k, v). quote_text js k @ '':'' @ stringify_value js v) d) @ ''}''"

text \<open>
  A pending \<^verbatim>\<open>setTimeout\<close>: the time it is due and what it runs. The only function the
  component ever passes to \<^verbatim>\<open>setTimeout\<close> is \<^verbatim>\<open>() => { setIsPlaying(true) }\<close>.
\<close>

datatype callback = SetIsPlayingTrue

record timer =
  due :: nat
  callback :: callback

text \<open>
  The component's state (the six \<^verbatim>\<open>useState\<close> cells and the ref) together with the part
  of the host it acts on (storage and the pending timers). A state update is modelled
  as taking effect at once.
\<close>

record 'n world =
  host :: host
  timers :: "timer list"
  playerRef :: "'n ReactPlayer option"
  isPlaying :: bool
  volume :: 'n
  hiddenVideo :: bool
  muted :: bool
  url :: string
  callbackLogs :: "LogEntry list"
  playerState :: "'n PlayerState"

section \<open>The debugger component: operations\<close>

text \<open>The four setters that \<^verbatim>\<open>useLocalStorageState\<close> returns (lines 62-71).\<close>

definition setIsPlaying :: "('n, 'e) builtins \<Rightarrow> bool \<Rightarrow> 'n world \<Rightarrow> exn + 'n world" where
  "setIsPlaying js v w =
     bind_exn (setValue (json_bool js) ''isPlaying'' v (host w))
       (\<lambda>(h', s). Inr (w\<lparr>host := h', isPlaying := s\<rparr>))"

definition setVolume :: "('n, 'e) builtins \<Rightarrow> 'n \<Rightarrow> 'n world \<Rightarrow> exn + 'n world" where
  "setVolume js v w =
     bind_exn (setValue (json_number js) ''volume'' v (host w))
       (\<lambda>(h', s). Inr (w\<lparr>host := h', volume := s\<rparr>))"

definition setHiddenVideo :: "('n, 'e) builtins \<Rightarrow> bool \<Rightarrow> 'n world \<Rightarrow> exn + 'n world" where
  "setHiddenVideo js v w =
     bind_exn (setValue (json_bool js) ''hiddenVideo'' v (host w))
       (\<lambda>(h', s). Inr (w\<lparr>host := h', hiddenVideo := s\<rparr>))"

definition setMuted :: "('n, 'e) builtins \<Rightarrow> bool \<Rightarrow> 'n world \<Rightarrow> exn + 'n world" where
  "setMuted js v w =
     bind_exn (setValue (json_bool js) ''muted'' v (host w))
       (\<lambda>(h', s). Inr (w\<lparr>host := h', muted := s\<rparr>))"

text \<open>
  \<open>addLog js t ev d\<close> (lines 98-109), called when the clock reads \<open>t\<close>: the updater
  \<^verbatim>\<open>(prev) => [logEntry, ...prev].slice(0, 50)\<close> applied to the log.
\<close>

definition logEntry :: "('n, 'e) builtins \<Rightarrow> nat \<Rightarrow> string \<Rightarrow> 'n payload \<Rightarrow> LogEntry" where
  "logEntry js t ev d =
     \<lparr>timestamp = toLocaleTimeString js t, event = ev, data = stringify_data js d\<rparr>"

definition addLog :: "('n, 'e) builtins \<Rightarrow> nat \<Rightarrow> string \<Rightarrow> 'n payload \<Rightarrow> 'n world \<Rightarrow> 'n world" where
  "addLog js t ev d w = w\<lparr>callbackLogs := take 50 (logEntry js t ev d # callbackLogs w)\<rparr>"

text \<open>The \<^verbatim>\<open>Clear Logs\<close> button (line 353): \<^verbatim>\<open>setCallbackLogs([])\<close>.\<close>

definition clearLogs :: "'n world \<Rightarrow> 'n world" where
  "clearLogs w = w\<lparr>callbackLogs := []\<rparr>"

text \<open>\<^verbatim>\<open>setTimeout(cb, delay)\<close> called at time \<open>t\<close>; the component never cancels a timer.\<close>

definition setTimeout :: "callback \<Rightarrow> nat \<Rightarrow> nat \<Rightarrow> 'n world \<Rightarrow> 'n world" where
  "setTimeout cb delay t w = w\<lparr>timers := timers w @ [\<lparr>due = t + delay, callback = cb\<rparr>]\<rparr>"

definition testBatchPauseAndPlay :: "('n, 'e) builtins \<Rightarrow> nat \<Rightarrow> 'n world \<Rightarrow> exn + 'n world" where
  "testBatchPauseAndPlay js t w =
     bind_exn (setIsPlaying js False w) (\<lambda>w1. Inr (setTimeout SetIsPlayingTrue 500 t w1))"

definition run_callback :: "('n, 'e) builtins \<Rightarrow> callback \<Rightarrow> 'n world \<Rightarrow> exn + 'n world" where
  "run_callback js cb w = (case cb of SetIsPlayingTrue \<Rightarrow> setIsPlaying js True w)"

text \<open>
  The callback adapters (lines 111-167). Each takes the clock reading \<open>t\<close> of the moment
  it runs; the two \<^verbatim>\<open>addLog\<close> calls of \<^verbatim>\<open>handleStart\<close> are given the same reading.
\<close>

definition handlePlay :: "('n, 'e) builtins \<Rightarrow> nat \<Rightarrow> 'n world \<Rightarrow> 'n world" where
  "handlePlay js t w = addLog js t ''onPlay'' [] w"

definition handlePause :: "('n, 'e) builtins \<Rightarrow> nat \<Rightarrow> 'n world \<Rightarrow> 'n world" where
  "handlePause js t w = addLog js t ''onPause'' [] w"

definition handleReady :: "('n, 'e) builtins \<Rightarrow> nat \<Rightarrow> 'n world \<Rightarrow> 'n world" where
  "handleReady js t w = addLog js t ''onReady'' [(''player'', JString ''ready'')] w"

definition handleStart :: "('n, 'e) builtins \<Rightarrow> nat \<Rightarrow> 'n world \<Rightarrow> 'n world" where
  "handleStart js t w =
     (let w1 = addLog js t ''onStart'' [] w in
      case playerRef w1 of
        Some p \<Rightarrow>
          addLog js t ''onStart - getCurrentTime'' [(''currentTime'', JNumber (getCurrentTime p))] w1
      | None \<Rightarrow> w1)"

definition handleProgress ::
  "('n, 'e) builtins \<Rightarrow> nat \<Rightarrow> 'n ProgressState \<Rightarrow> 'n world \<Rightarrow> 'n world" where
  "handleProgress js t progress w =
     addLog js t ''onProgress''
       [(''playedSeconds'', JString (toFixed2 js (playedSeconds progress))),
        (''played'',
           JString (toFixed2 js (num_mul js (played progress) (num_lit js ''100'')) @ ''%''))]
       (w\<lparr>playerState :=
            \<lparr>played = played progress,
             playedSeconds = playedSeconds progress,
             loaded = loaded progress,
             loadedSeconds = loadedSeconds progress,
             duration = loaded progress\<rparr>\<rparr>)"

definition handleDuration :: "('n, 'e) builtins \<Rightarrow> nat \<Rightarrow> 'n \<Rightarrow> 'n world \<Rightarrow> 'n world" where
  "handleDuration js t d w = addLog js t ''onDuration'' [(''duration'', JNumber d)] w"

definition handleError :: "('n, 'e) builtins \<Rightarrow> nat \<Rightarrow> 'e \<Rightarrow> 'n world \<Rightarrow> 'n world" where
  "handleError js t err w = addLog js t ''onError'' [(''error'', JString (toString js err))] w"

definition handleEnded :: "('n, 'e) builtins \<Rightarrow> nat \<Rightarrow> 'n world \<Rightarrow> exn + 'n world" where
  "handleEnded js t w = setIsPlaying js False (addLog js t ''onEnded'' [] w)"

definition handleSeek :: "('n, 'e) builtins \<Rightarrow> nat \<Rightarrow> 'n \<Rightarrow> 'n world \<Rightarrow> 'n world" where
  "handleSeek js t seconds w = addLog js t ''onSeek'' [(''seconds'', JNumber seconds)] w"

definition seekTo :: "('n, 'e) builtins \<Rightarrow> nat \<Rightarrow> 'n \<Rightarrow> 'n world \<Rightarrow> 'n world" where
  "seekTo js t seconds w =
     (case playerRef w of
        Some p \<Rightarrow>
          addLog js t ''Manual seekTo'' [(''seconds'', JNumber seconds)]
            (w\<lparr>playerRef := Some (player_seekTo seconds p)\<rparr>)
      | None \<Rightarrow> w)"

text \<open>The \<^verbatim>\<open>Seek to Middle\<close> button (lines 287-292).\<close>

definition seekToMiddle :: "('n, 'e) builtins \<Rightarrow> nat \<Rightarrow> 'n world \<Rightarrow> 'n world" where
  "seekToMiddle js t w =
     (case playerRef w of
        Some p \<Rightarrow> seekTo js t (num_div js (getDuration p) (num_lit js ''2'')) w
      | None \<Rightarrow> w)"

section \<open>The debugger component: events\<close>

text \<open>
  The timers due at time \<open>t\<close> run in the order of their due times (timers due at the
  same time in the order they were set), each once, and leave the queue.
\<close>

fun run_timers :: "('n, 'e) builtins \<Rightarrow> timer list \<Rightarrow> 'n world \<Rightarrow> exn + 'n world" where
  "run_timers js [] w = Inr w"
| "run_timers js (tm # tms) w = bind_exn (run_callback js (callback tm) w) (run_timers js tms)"

definition due_timers :: "nat \<Rightarrow> 'n world \<Rightarrow> timer list" where
  "due_timers t w = sort_key due (filter (\<lambda>tm. due tm \<le> t) (timers w))"

definition elapse :: "('n, 'e) builtins \<Rightarrow> nat \<Rightarrow> 'n world \<Rightarrow> exn + 'n world" where
  "elapse js t w =
     run_timers js (due_timers t w) (w\<lparr>timers := filter (\<lambda>tm. t < due tm) (timers w)\<rparr>)"

text \<open>
  What can happen to the mounted component, as wired in the JSX (lines 183-353): the
  nine callbacks of the player, the controls, the buttons, the host running the due
  timers, and React attaching or detaching the player instance of the ref.
\<close>

datatype ('n, 'e) event =
    OnReady | OnStart | OnPlay | OnPause | OnEnded | OnError 'e
  | OnProgress "'n ProgressState" | OnDuration 'n | OnSeek 'n
  | ChangeUrl string | CheckPlaying bool | CheckMuted bool | InputVolume string
  | CheckHiddenVideo bool
  | ClickTestBatch | ClickSeekStart | ClickSeek30 | ClickSeek60 | ClickSeekMiddle
  | ClickClearLogs
  | TimersDue
  | SetRef "'n ReactPlayer option"

definition handle :: "('n, 'e) builtins \<Rightarrow> nat \<Rightarrow> ('n, 'e) event \<Rightarrow> 'n world \<Rightarrow> exn + 'n world" where
  "handle js t e w =
     (case e of
        OnReady \<Rightarrow> Inr (handleReady js t w)
      | OnStart \<Rightarrow> Inr (handleStart js t w)
      | OnPlay \<Rightarrow> Inr (handlePlay js t w)
      | OnPause \<Rightarrow> Inr (handlePause js t w)
      | OnEnded \<Rightarrow> handleEnded js t w
      | OnError err \<Rightarrow> Inr (handleError js t err w)
      | OnProgress progress \<Rightarrow> Inr (handleProgress js t progress w)
      | OnDuration d \<Rightarrow> Inr (handleDuration js t d w)
      | OnSeek seconds \<Rightarrow> Inr (handleSeek js t seconds w)
      | ChangeUrl u \<Rightarrow> Inr (w\<lparr>url := u\<rparr>)
      | CheckPlaying b \<Rightarrow> setIsPlaying js b w
      | CheckMuted b \<Rightarrow> setMuted js b w
      | InputVolume s \<Rightarrow> setVolume js (parseFloat js s) w
      | CheckHiddenVideo b \<Rightarrow> setHiddenVideo js b w
      | ClickTestBatch \<Rightarrow> testBatchPauseAndPlay js t w
      | ClickSeekStart \<Rightarrow> Inr (seekTo js t (num_lit js ''0'') w)
      | ClickSeek30 \<Rightarrow> Inr (seekTo js t (num_lit js ''30'') w)
      | ClickSeek60 \<Rightarrow> Inr (seekTo js t (num_lit js ''60'') w)
      | ClickSeekMiddle \<Rightarrow> Inr (seekToMiddle js t w)
      | ClickClearLogs \<Rightarrow> Inr (clearLogs w)
      | TimersDue \<Rightarrow> elapse js t w
      | SetRef r \<Rightarrow> Inr (w\<lparr>playerRef := r\<rparr>))"

text \<open>A run: events with the clock reading at which each is handled.\<close>

fun run ::
  "('n, 'e) builtins \<Rightarrow> (nat \<times> ('n, 'e) event) list \<Rightarrow> 'n world \<Rightarrow> exn + 'n world" where
  "run js [] w = Inr w"
| "run js ((t, e) # es) w = bind_exn (handle js t e w) (run js es)"

text \<open>The events whose handler calls \<^verbatim>\<open>addLog\<close>.\<close>

fun logging :: "('n, 'e) event \<Rightarrow> bool" where
  "logging (ChangeUrl u) = False"
| "logging (CheckPlaying b) = False"
| "logging (CheckMuted b) = False"
| "logging (InputVolume s) = False"
| "logging (CheckHiddenVideo b) = False"
| "logging ClickTestBatch = False"
| "logging ClickClearLogs = False"
| "logging TimersDue = False"
| "logging (SetRef r) = False"
| "logging e = True"

text \<open>
  \<open>appends js calls w\<close>: a sequence of \<^verbatim>\<open>addLog\<close> calls, each with the clock reading of the
  call, its event name and its payload, in call order.
\<close>

fun appends ::
  "('n, 'e) builtins \<Rightarrow> (nat \<times> string \<times> 'n payload) list \<Rightarrow> 'n world \<Rightarrow> 'n world" where
  "appends js [] w = w"
| "appends js ((t, ev, d) # calls) w = appends js calls (addLog js t ev d w)"

section \<open>The language: numbers and JSON\<close>

text \<open>
  The functions of the language that the properties below are evaluated with, written
  from the ECMAScript specification (ECMA-262): the Number type and its conversions to
  and from decimal text, \<^verbatim>\<open>JSON.parse\<close> and \<^verbatim>\<open>JSON.stringify\<close>, \<^verbatim>\<open>toFixed\<close>, \<^verbatim>\<open>parseFloat\<close>,
  multiplication and division.
\<close>

subsection \<open>Numbers\<close>

text \<open>
  A Number is an IEEE 754 double: not-a-number, an infinity with its sign (\<open>True\<close> is
  negative), or \<open>Finite sg m e\<close>, the value \<open>m * 2 ^ e\<close> with its sign. A finite
  number is kept in one form only: zero is \<open>Finite sg 0 0\<close>, a normal number has
  \<open>2 ^ 52 \<le> m < 2 ^ 53\<close> and \<open>- 1074 \<le> e \<le> 971\<close>, a subnormal one has \<open>m < 2 ^ 52\<close> and
  \<open>e = - 1074\<close>.
\<close>

datatype jsnumber = NaN | Infinity bool | Finite bool int int

function bit_length :: "int \<Rightarrow> int" where
  "bit_length n = (if n \<le> 0 then 0 else 1 + bit_length (n div 2))"
  by pat_completeness auto
termination
  by (relation "measure nat") auto

declare bit_length.simps [simp del]

definition round_half_even :: "int \<Rightarrow> int \<Rightarrow> int" where
  "round_half_even n d =
     (let q = n div d; r = n mod d in
      if 2 * r < d then q else if d < 2 * r then q + 1 else if even q then q else q + 1)"

definition scale_num :: "int \<Rightarrow> int \<Rightarrow> int" where
  "scale_num p e = (if e < 0 then p * 2 ^ nat (- e) else p)"

definition scale_den :: "int \<Rightarrow> int \<Rightarrow> int" where
  "scale_den q e = (if e < 0 then q else q * 2 ^ nat e)"

text \<open>
  \<open>to_double sg p q\<close> is the Number value of the rational \<open>p / q\<close> (\<open>0 \<le> p\<close>, \<open>0 < q\<close>) with
  sign \<open>sg\<close>: the double nearest to it, ties to the even significand, an infinity from
  \<open>2 ^ 1024 - 2 ^ 970\<close> on. The exponent \<open>e\<close> is the one for which \<open>p / (q * 2 ^ e)\<close> lies
  in \<open>[2 ^ 52, 2 ^ 53)\<close>, but not below \<open>- 1074\<close>.
\<close>

definition to_double :: "bool \<Rightarrow> int \<Rightarrow> int \<Rightarrow> jsnumber" where
  "to_double sg p q =
     (if p = 0 then Finite sg 0 0
      else
        let e0 = bit_length p - bit_length q - 53;
            t = scale_num p e0 div scale_den q e0;
            e1 = (if 2 ^ 53 \<le> t then e0 + 1 else e0);
            e = max e1 (- 1074);
            m = round_half_even (scale_num p e) (scale_den q e);
            m' = (if m = 2 ^ 53 then 2 ^ 52 else m);
            e' = (if m = 2 ^ 53 then e + 1 else e)
        in if 971 < e' then Infinity sg
           else if m' = 0 then Finite sg 0 0
           else Finite sg m' e')"

text \<open>\<open>double_of_decimal sg s t\<close> is the Number value of \<open>s * 10 ^ t\<close> with sign \<open>sg\<close>.\<close>

definition dec_num :: "int \<Rightarrow> int \<Rightarrow> int" where
  "dec_num s t = (if t < 0 then s else s * 10 ^ nat t)"

definition dec_den :: "int \<Rightarrow> int" where
  "dec_den t = (if t < 0 then 10 ^ nat (- t) else 1)"

definition double_of_decimal :: "bool \<Rightarrow> int \<Rightarrow> int \<Rightarrow> jsnumber" where
  "double_of_decimal sg s t = to_double sg (dec_num s t) (dec_den t)"

text \<open>
  \<open>hundredths n\<close> is the Number value of \<open>n / 100\<close>: what \<^verbatim>\<open>parseFloat\<close> makes of the value
  of the volume slider (\<^verbatim>\<open>min="0" max="1" step="0.01"\<close>) for \<open>n \<le> 100\<close>.
\<close>

definition hundredths :: "nat \<Rightarrow> jsnumber" where
  "hundredths n = double_of_decimal False (int n) (- 2)"

subsection \<open>Number to text\<close>

definition digit_of :: "int \<Rightarrow> char" where
  "digit_of d = char_of (48 + d)"

function show_int :: "int \<Rightarrow> string" where
  "show_int n = (if n < 10 then [digit_of n] else show_int (n div 10) @ [digit_of (n mod 10)])"
  by pat_completeness auto
termination
  by (relation "measure nat") auto

declare show_int.simps [simp del]

definition num_digits :: "int \<Rightarrow> int" where
  "num_digits n = int (length (show_int n))"

text \<open>
  \<open>decimal_exponent p q\<close> is the \<open>n\<close> with \<open>10 ^ (n - 1) \<le> p / q < 10 ^ n\<close> (\<open>0 < p\<close>,
  \<open>0 < q\<close>), read off the number of digits of the integer part of \<open>p / q\<close> or of \<open>q / p\<close>.
\<close>

definition decimal_exponent :: "int \<Rightarrow> int \<Rightarrow> int" where
  "decimal_exponent p q =
     (if q \<le> p then num_digits (p div q)
      else let D = num_digits (q div p) in
           if p * 10 ^ nat (D - 1) = q then 2 - D else 1 - D)"

text \<open>
  Number::toString (radix 10) asks for integers \<open>n\<close>, \<open>k\<close>, \<open>s\<close> with \<open>k\<close> as small as
  possible such that \<open>s\<close> has \<open>k\<close> digits and \<open>s * 10 ^ (n - k)\<close> has the Number value
  \<open>x\<close>; among several \<open>s\<close> the one nearest to \<open>x\<close>. \<open>shortest_decimal fuel x p q n k\<close>
  (with \<open>x = p / q\<close>) looks for them from \<open>k\<close> digits upwards and yields \<open>(s, n)\<close>: with \<open>k\<close>
  digits the only candidates are the two \<open>k\<close>-digit decimals next to \<open>x\<close>, below (\<open>lo\<close>)
  and above (\<open>hi\<close>). Seventeen digits identify every double, so the search is cut there.
\<close>

fun shortest_decimal :: "nat \<Rightarrow> jsnumber \<Rightarrow> int \<Rightarrow> int \<Rightarrow> int \<Rightarrow> int \<Rightarrow> int \<times> int" where
  "shortest_decimal fuel x p q n k =
     (let N = (if n \<le> k then p * 10 ^ nat (k - n) else p);
          D = (if n \<le> k then q else q * 10 ^ nat (n - k));
          lo = N div D; r = N mod D; hi = lo + 1;
          ok_lo = (double_of_decimal False lo (n - k) = x);
          ok_hi = (r \<noteq> 0 \<and> double_of_decimal False hi (n - k) = x);
          up = (if ok_lo \<and> ok_hi then D < 2 * r \<or> (2 * r = D \<and> odd lo) else ok_hi)
      in if ok_lo \<or> ok_hi then
           (if up then (if hi = 10 ^ nat k then (10 ^ nat (k - 1), n + 1) else (hi, n))
            else (lo, n))
         else (case fuel of 0 \<Rightarrow> (lo, n) | Suc f \<Rightarrow> shortest_decimal f x p q n (k + 1)))"

declare shortest_decimal.simps [simp del]

text \<open>The four layouts of Number::toString for the digits of \<open>s\<close> and the exponent \<open>n\<close>.\<close>

definition format_decimal :: "int \<Rightarrow> int \<Rightarrow> string" where
  "format_decimal s n =
     (let ds = show_int s; k = int (length ds) in
      if k \<le> n \<and> n \<le> 21 then ds @ replicate (nat (n - k)) CHR ''0''
      else if 0 < n \<and> n \<le> 21 then take (nat n) ds @ ''.'' @ drop (nat n) ds
      else if - 6 < n \<and> n \<le> 0 then ''0.'' @ replicate (nat (- n)) CHR ''0'' @ ds
      else
        let ex = (if n - 1 < 0 then ''-'' else ''+'') @ show_int (abs (n - 1)) in
        if k = 1 then ds @ ''e'' @ ex
        else take 1 ds @ ''.'' @ drop 1 ds @ ''e'' @ ex)"

definition Number_toString :: "jsnumber \<Rightarrow> string" where
  "Number_toString x =
     (case x of
        NaN \<Rightarrow> ''NaN''
      | Infinity sg \<Rightarrow> (if sg then ''-Infinity'' else ''Infinity'')
      | Finite sg m e \<Rightarrow>
          if m = 0 then ''0''
          else
            let p = (if e < 0 then m else m * 2 ^ nat e);
                q = (if e < 0 then 2 ^ nat (- e) else 1);
                (s, n) = shortest_decimal 16 (Finite False m e) p q (decimal_exponent p q) 1
            in (if sg then ''-'' else []) @ format_decimal s n)"

text \<open>
  \<^verbatim>\<open>Number.prototype.toFixed(2)\<close>: below \<open>10 ^ 21\<close> the integer \<open>n\<close> nearest to \<open>100 * x\<close> (the
  larger of two), written with two decimal places.
\<close>

definition Number_toFixed2 :: "jsnumber \<Rightarrow> string" where
  "Number_toFixed2 x =
     (case x of
        Finite sg m e \<Rightarrow>
          let p = (if e < 0 then m else m * 2 ^ nat e);
              q = (if e < 0 then 2 ^ nat (- e) else 1)
          in if 10 ^ 21 * q \<le> p then Number_toString x
             else
               let n = (2 * 100 * p + q) div (2 * q);
                   ds = show_int n;
                   ds' = replicate (3 - length ds) CHR ''0'' @ ds
               in (if sg \<and> m \<noteq> 0 then ''-'' else []) @
                  take (length ds' - 2) ds' @ ''.'' @ drop (length ds' - 2) ds'
      | _ \<Rightarrow> Number_toString x)"

subsection \<open>Arithmetic\<close>

definition Number_multiply :: "jsnumber \<Rightarrow> jsnumber \<Rightarrow> jsnumber" where
  "Number_multiply x y =
     (case (x, y) of
        (NaN, _) \<Rightarrow> NaN
      | (_, NaN) \<Rightarrow> NaN
      | (Infinity s1, Infinity s2) \<Rightarrow> Infinity (s1 \<noteq> s2)
      | (Infinity s1, Finite s2 m e) \<Rightarrow> (if m = 0 then NaN else Infinity (s1 \<noteq> s2))
      | (Finite s1 m e, Infinity s2) \<Rightarrow> (if m = 0 then NaN else Infinity (s1 \<noteq> s2))
      | (Finite s1 m1 e1, Finite s2 m2 e2) \<Rightarrow>
          to_double (s1 \<noteq> s2)
            (if e1 + e2 < 0 then m1 * m2 else m1 * m2 * 2 ^ nat (e1 + e2))
            (if e1 + e2 < 0 then 2 ^ nat (- (e1 + e2)) else 1))"

definition Number_divide :: "jsnumber \<Rightarrow> jsnumber \<Rightarrow> jsnumber" where
  "Number_divide x y =
     (case (x, y) of
        (NaN, _) \<Rightarrow> NaN
      | (_, NaN) \<Rightarrow> NaN
      | (Infinity s1, Infinity s2) \<Rightarrow> NaN
      | (Infinity s1, Finite s2 m e) \<Rightarrow> Infinity (s1 \<noteq> s2)
      | (Finite s1 m e, Infinity s2) \<Rightarrow> Finite (s1 \<noteq> s2) 0 0
      | (Finite s1 m1 e1, Finite s2 m2 e2) \<Rightarrow>
          if m2 = 0 then (if m1 = 0 then NaN else Infinity (s1 \<noteq> s2))
          else
            to_double (s1 \<noteq> s2)
              (if e1 - e2 < 0 then m1 else m1 * 2 ^ nat (e1 - e2))
              (if e1 - e2 < 0 then m2 * 2 ^ nat (e2 - e1) else m2))"

subsection \<open>Text to number\<close>

definition is_digit :: "char \<Rightarrow> bool" where
  "is_digit c = (c \<in> set ''0123456789'')"

definition digits_value :: "string \<Rightarrow> int" where
  "digits_value ds = foldl (\<lambda>a c. 10 * a + (of_char c - 48)) 0 ds"

text \<open>
  The Number value of a decimal with sign \<open>sg\<close>, integer digits \<open>ip\<close>, fraction digits
  \<open>fp\<close> and exponent digits \<open>ex\<close> (negated when \<open>esg\<close>).
\<close>

definition decimal_value :: "bool \<Rightarrow> string \<Rightarrow> string \<Rightarrow> bool \<Rightarrow> string \<Rightarrow> jsnumber" where
  "decimal_value sg ip fp esg ex =
     double_of_decimal sg (digits_value (ip @ fp))
       ((if esg then - digits_value ex else digits_value ex) - int (length fp))"

text \<open>
  A JSON number: an optional minus, an integer part without a leading zero (unless it
  is \<^verbatim>\<open>0\<close>), an optional fraction with at least one digit, an optional exponent with at
  least one digit, and nothing after.
\<close>

definition read_json_number :: "string \<Rightarrow> jsnumber option" where
  "read_json_number s =
     (let sg = (s \<noteq> [] \<and> hd s = CHR ''-'');
          r0 = (if sg then tl s else s);
          ip = takeWhile is_digit r0;
          r1 = dropWhile is_digit r0;
          has_frac = (r1 \<noteq> [] \<and> hd r1 = CHR ''.'');
          fp = (if has_frac then takeWhile is_digit (tl r1) else []);
          r2 = (if has_frac then dropWhile is_digit (tl r1) else r1);
          has_exp = (r2 \<noteq> [] \<and> (hd r2 = CHR ''e'' \<or> hd r2 = CHR ''E''));
          r3 = (if has_exp then tl r2 else r2);
          esg = (has_exp \<and> r3 \<noteq> [] \<and> hd r3 = CHR ''-'');
          r4 = (if has_exp \<and> r3 \<noteq> [] \<and> (hd r3 = CHR ''-'' \<or> hd r3 = CHR ''+'') then tl r3 else r3);
          ex = (if has_exp then takeWhile is_digit r4 else []);
          r5 = (if has_exp then dropWhile is_digit r4 else r4)
      in if ip \<noteq> [] \<and> (hd ip \<noteq> CHR ''0'' \<or> length ip = 1)
            \<and> (has_frac \<longrightarrow> fp \<noteq> []) \<and> (has_exp \<longrightarrow> ex \<noteq> []) \<and> r5 = []
         then Some (decimal_value sg ip fp esg ex)
         else None)"

text \<open>
  \<^verbatim>\<open>parseFloat\<close>: leading white space is dropped, then the longest prefix that is a
  decimal literal (a sign, then \<^verbatim>\<open>Infinity\<close> or digits with an optional point and an
  optional complete exponent) is read; without such a prefix the result is \<open>NaN\<close>.
\<close>

definition str_ws :: "char \<Rightarrow> bool" where
  "str_ws c = ((of_char c :: nat) \<in> {9, 10, 11, 12, 13, 32, 160})"

definition parseFloat_text :: "string \<Rightarrow> jsnumber" where
  "parseFloat_text s =
     (let t = dropWhile str_ws s;
          sg = (t \<noteq> [] \<and> hd t = CHR ''-'');
          r0 = (if t \<noteq> [] \<and> (hd t = CHR ''-'' \<or> hd t = CHR ''+'') then tl t else t);
          ip = takeWhile is_digit r0;
          r1 = dropWhile is_digit r0;
          has_point = (r1 \<noteq> [] \<and> hd r1 = CHR ''.'');
          fp = (if has_point then takeWhile is_digit (tl r1) else []);
          r2 = (if has_point then dropWhile is_digit (tl r1) else r1);
          has_e = (r2 \<noteq> [] \<and> (hd r2 = CHR ''e'' \<or> hd r2 = CHR ''E''));
          r3 = (if has_e then tl r2 else r2);
          esg = (r3 \<noteq> [] \<and> hd r3 = CHR ''-'');
          r4 = (if r3 \<noteq> [] \<and> (hd r3 = CHR ''-'' \<or> hd r3 = CHR ''+'') then tl r3 else r3);
          ex = (if has_e then takeWhile is_digit r4 else [])
      in if take 8 r0 = ''Infinity'' then Infinity sg
         else if ip = [] \<and> fp = [] then NaN
         else decimal_value sg ip fp esg ex)"

subsection \<open>JSON values and \<^verbatim>\<open>JSON.parse\<close>\<close>

text \<open>
  What \<^verbatim>\<open>JSON.parse\<close> can return. A string is its sequence of code units; an object is
  its properties in the order the language enumerates them. A text is a \<open>string\<close>, so
  its characters are the code units below 256.
\<close>

datatype json_value =
    VNull | VBool bool | VNumber jsnumber | VString "nat list"
  | VArray "json_value list" | VObject "(nat list \<times> json_value) list"

datatype token = TLBrace | TRBrace | TLBracket | TRBracket | TColon | TComma | TValue json_value

definition hex_value :: "char \<Rightarrow> nat option" where
  "hex_value c =
     (let n = of_char c :: nat in
      if 48 \<le> n \<and> n \<le> 57 then Some (n - 48)
      else if 65 \<le> n \<and> n \<le> 70 then Some (n - 55)
      else if 97 \<le> n \<and> n \<le> 102 then Some (n - 87)
      else None)"

definition hex4 :: "string \<Rightarrow> nat option" where
  "hex4 s =
     (case map hex_value s of
        [Some a, Some b, Some c, Some d] \<Rightarrow> Some (4096 * a + 256 * b + 16 * c + d)
      | _ \<Rightarrow> None)"

definition escape_value :: "char \<Rightarrow> nat option" where
  "escape_value c =
     (if c = CHR 0x22 then Some 0x22
      else if c = CHR 0x5C then Some 0x5C
      else if c = CHR ''/'' then Some 0x2F
      else if c = CHR ''b'' then Some 8
      else if c = CHR ''f'' then Some 12
      else if c = CHR ''n'' then Some 10
      else if c = CHR ''r'' then Some 13
      else if c = CHR ''t'' then Some 9
      else None)"

text \<open>
  \<open>scan_string cs\<close> reads a string after its opening quotation mark: the code units
  of the string and the number of characters read, closing quotation mark included. A
  control character, an unknown escape and a missing closing mark are errors.
\<close>

fun scan_string :: "string \<Rightarrow> (nat list \<times> nat) option" where
  "scan_string [] = None"
| "scan_string (c # cs) =
     (if c = CHR 0x22 then Some ([], 1)
      else if c = CHR 0x5C then
        (case cs of
           [] \<Rightarrow> None
         | d # ds \<Rightarrow>
             if d = CHR ''u'' then
               (case hex4 (take 4 ds) of
                  None \<Rightarrow> None
                | Some u \<Rightarrow> map_option (\<lambda>(us, n). (u # us, n + 6)) (scan_string (drop 4 ds)))
             else
               (case escape_value d of
                  None \<Rightarrow> None
                | Some u \<Rightarrow> map_option (\<lambda>(us, n). (u # us, n + 2)) (scan_string ds)))
      else if (of_char c :: nat) < 0x20 then None
      else map_option (\<lambda>(us, n). (of_char c # us, n + 1)) (scan_string cs))"

definition json_ws :: "char \<Rightarrow> bool" where
  "json_ws c = (c = CHR 0x09 \<or> c = CHR 0x0A \<or> c = CHR 0x0D \<or> c = CHR 0x20)"

definition number_char :: "char \<Rightarrow> bool" where
  "number_char c = (c \<in> set ''-+.eE0123456789'')"

definition word_char :: "char \<Rightarrow> bool" where
  "word_char c = (c \<in> set ''abcdefghijklmnopqrstuvwxyz'')"

definition read_word :: "string \<Rightarrow> json_value option" where
  "read_word w =
     (if w = ''true'' then Some (VBool True)
      else if w = ''false'' then Some (VBool False)
      else if w = ''null'' then Some VNull
      else None)"

text \<open>
  The tokens of a text, \<open>None\<close> when some part of it is no token. A number or a literal
  name is the longest run of its kind of characters, which must then be a JSON number or
  one of \<^verbatim>\<open>true\<close>, \<^verbatim>\<open>false\<close>, \<^verbatim>\<open>null\<close>.
\<close>

function tokenize :: "string \<Rightarrow> token list option" where
  "tokenize [] = Some []"
| "tokenize (c # cs) =
     (if json_ws c then tokenize cs
      else if c = CHR ''{'' then map_option (Cons TLBrace) (tokenize cs)
      else if c = CHR ''}'' then map_option (Cons TRBrace) (tokenize cs)
      else if c = CHR ''['' then map_option (Cons TLBracket) (tokenize cs)
      else if c = CHR '']'' then map_option (Cons TRBracket) (tokenize cs)
      else if c = CHR '':'' then map_option (Cons TColon) (tokenize cs)
      else if c = CHR '','' then map_option (Cons TComma) (tokenize cs)
      else if c = CHR 0x22 then
        (case scan_string cs of
           None \<Rightarrow> None
         | Some (us, n) \<Rightarrow> map_option (Cons (TValue (VString us))) (tokenize (drop n cs)))
      else if number_char c then
        (case read_json_number (c # takeWhile number_char cs) of
           None \<Rightarrow> None
         | Some x \<Rightarrow> map_option (Cons (TValue (VNumber x))) (tokenize (dropWhile number_char cs)))
      else if word_char c then
        (case read_word (c # takeWhile word_char cs) of
           None \<Rightarrow> None
         | Some v \<Rightarrow> map_option (Cons (TValue v)) (tokenize (dropWhile word_char cs)))
      else None)"
  by pat_completeness auto
termination
  by (relation "measure length") (auto simp: le_imp_less_Suc length_dropWhile_le)

declare tokenize.simps [simp del]

text \<open>
  The properties of a parsed object: a later member with the same key replaces the
  value of the earlier one in its place, and the keys that are array indices come
  first, in ascending order.
\<close>

fun upsert ::
  "nat list \<Rightarrow> json_value \<Rightarrow> (nat list \<times> json_value) list \<Rightarrow> (nat list \<times> json_value) list" where
  "upsert k v [] = [(k, v)]"
| "upsert k v ((k', v') # ms) = (if k = k' then (k, v) # ms else (k', v') # upsert k v ms)"

definition index_value :: "nat list \<Rightarrow> int" where
  "index_value k = foldl (\<lambda>a u. 10 * a + (int u - 48)) 0 k"

definition array_index :: "nat list \<Rightarrow> bool" where
  "array_index k =
     (k \<noteq> [] \<and> list_all (\<lambda>u. 48 \<le> u \<and> u \<le> 57) k \<and> (hd k \<noteq> 48 \<or> length k = 1)
      \<and> index_value k < 4294967295)"

definition make_object :: "(nat list \<times> json_value) list \<Rightarrow> json_value" where
  "make_object ms =
     (let props = foldl (\<lambda>acc (k, v). upsert k v acc) [] ms in
      VObject (sort_key (\<lambda>(k, v). index_value k) (filter (\<lambda>(k, v). array_index k) props)
               @ filter (\<lambda>(k, v). \<not> array_index k) props))"

text \<open>
  The parser reads the tokens from left to right. Its state says what may come next,
  inside which open arrays and objects (the frames, innermost first, each with what
  it holds so far in reverse): a value; a value or \<^verbatim>\<open>]\<close> right after \<^verbatim>\<open>[\<close>; a key or \<^verbatim>\<open>}\<close>
  right after \<^verbatim>\<open>{\<close>; a key after a comma; the colon after a key; and, after a complete
  value, a comma or the closing bracket of the innermost frame, or the end of the text.
\<close>

datatype frame = InArray "json_value list" | InObject "(nat list \<times> json_value) list" "nat list"

datatype pstate =
    SValue "frame list"
  | SArrayStart "frame list"
  | SObjectStart "frame list"
  | SKey "(nat list \<times> json_value) list" "frame list"
  | SColon "(nat list \<times> json_value) list" "nat list" "frame list"
  | SAfter json_value "frame list"

fun start_value :: "frame list \<Rightarrow> token \<Rightarrow> pstate option" where
  "start_value fs (TValue v) = Some (SAfter v fs)"
| "start_value fs TLBracket = Some (SArrayStart fs)"
| "start_value fs TLBrace = Some (SObjectStart fs)"
| "start_value fs _ = None"

fun step :: "pstate \<Rightarrow> token \<Rightarrow> pstate option" where
  "step (SValue fs) tok = start_value fs tok"
| "step (SArrayStart fs) TRBracket = Some (SAfter (VArray []) fs)"
| "step (SArrayStart fs) tok = start_value (InArray [] # fs) tok"
| "step (SObjectStart fs) TRBrace = Some (SAfter (VObject []) fs)"
| "step (SObjectStart fs) (TValue (VString k)) = Some (SColon [] k fs)"
| "step (SObjectStart fs) _ = None"
| "step (SKey ms fs) (TValue (VString k)) = Some (SColon ms k fs)"
| "step (SKey ms fs) _ = None"
| "step (SColon ms k fs) TColon = Some (SValue (InObject ms k # fs))"
| "step (SColon ms k fs) _ = None"
| "step (SAfter v []) _ = None"
| "step (SAfter v (InArray els # fs)) TComma = Some (SValue (InArray (v # els) # fs))"
| "step (SAfter v (InArray els # fs)) TRBracket = Some (SAfter (VArray (rev (v # els))) fs)"
| "step (SAfter v (InArray els # fs)) _ = None"
| "step (SAfter v (InObject ms k # fs)) TComma = Some (SKey ((k, v) # ms) fs)"
| "step (SAfter v (InObject ms k # fs)) TRBrace =
     Some (SAfter (make_object (rev ((k, v) # ms))) fs)"
| "step (SAfter v (InObject ms k # fs)) _ = None"

fun steps :: "pstate \<Rightarrow> token list \<Rightarrow> pstate option" where
  "steps st [] = Some st"
| "steps st (tok # toks) = (case step st tok of None \<Rightarrow> None | Some st' \<Rightarrow> steps st' toks)"

text \<open>\<^verbatim>\<open>JSON.parse(text)\<close>: the value of the text, \<open>None\<close> where it throws a SyntaxError.\<close>

definition JSON_parse_text :: "string \<Rightarrow> json_value option" where
  "JSON_parse_text s =
     (case tokenize s of
        None \<Rightarrow> None
      | Some toks \<Rightarrow>
          (case steps (SValue []) toks of
             Some (SAfter v []) \<Rightarrow> Some v
           | _ \<Rightarrow> None))"

subsection \<open>\<^verbatim>\<open>JSON.stringify\<close>\<close>

text \<open>
  QuoteJSONString. A code unit of 256 or more, which no character of a \<open>string\<close> can
  be, is written as its hexadecimal escape (the language writes it as it is unless it is a
  lone surrogate); the text denotes the same string.
\<close>

definition hex_digit :: "nat \<Rightarrow> char" where
  "hex_digit d = ''0123456789abcdef'' ! (d mod 16)"

definition unicode_escape :: "nat \<Rightarrow> string" where
  "unicode_escape u =
     [CHR 0x5C, CHR ''u'', hex_digit (u div 4096), hex_digit (u div 256), hex_digit (u div 16),
      hex_digit u]"

definition quote_unit :: "nat \<Rightarrow> string" where
  "quote_unit u =
     (if u = 0x08 then [CHR 0x5C, CHR ''b'']
      else if u = 0x09 then [CHR 0x5C, CHR ''t'']
      else if u = 0x0A then [CHR 0x5C, CHR ''n'']
      else if u = 0x0C then [CHR 0x5C, CHR ''f'']
      else if u = 0x0D then [CHR 0x5C, CHR ''r'']
      else if u = 0x22 then [CHR 0x5C, CHR 0x22]
      else if u = 0x5C then [CHR 0x5C, CHR 0x5C]
      else if u < 0x20 \<or> 0x100 \<le> u then unicode_escape u
      else [char_of u])"

definition QuoteJSONString :: "nat list \<Rightarrow> string" where
  "QuoteJSONString us = CHR 0x22 # concat (map quote_unit us) @ [CHR 0x22]"

text \<open>
  \<^verbatim>\<open>JSON.stringify(value)\<close> (no replacer, no indentation). A number that is not finite is
  written \<^verbatim>\<open>null\<close>, and both zeros are written \<^verbatim>\<open>0\<close>.
\<close>

fun JSON_stringify_value :: "json_value \<Rightarrow> string" where
  "JSON_stringify_value VNull = ''null''"
| "JSON_stringify_value (VBool b) = (if b then ''true'' else ''false'')"
| "JSON_stringify_value (VNumber x) =
     (case x of Finite sg m e \<Rightarrow> Number_toString x | _ \<Rightarrow> ''null'')"
| "JSON_stringify_value (VString us) = QuoteJSONString us"
| "JSON_stringify_value (VArray vs) = ''['' @ join_comma (map JSON_stringify_value vs) @ '']''"
| "JSON_stringify_value (VObject ms) =
     ''{'' @ join_comma (map (\<lambda>(k, v). QuoteJSONString k @ '':'' @ JSON_stringify_value v) ms)
     @ ''}''"

declare JSON_stringify_value.simps [simp del]

text \<open>The two functions as the hook calls them, on any value.\<close>

definition JSON :: "json_value json" where
  "JSON =
     \<lparr>JSON_stringify = (\<lambda>v. Inr (JSON_stringify_value v)),
      JSON_parse = (\<lambda>s. case JSON_parse_text s of None \<Rightarrow> Inl SyntaxError | Some v \<Rightarrow> Inr v)\<rparr>"

text \<open>\<open>round_trips v\<close>: the text written for \<open>v\<close> parses back to \<open>v\<close>.\<close>

definition round_trips :: "json_value \<Rightarrow> bool" where
  "round_trips v = (JSON_parse_text (JSON_stringify_value v) = Some v)"

section \<open>An instance of the host to evaluate the model on\<close>

text \<open>
  The functions of the language are the ones above. The two codecs of the component
  are \<^verbatim>\<open>JSON\<close> at the TypeScript types \<^verbatim>\<open>boolean\<close> and \<^verbatim>\<open>number\<close> of its cells. A text whose
  value is of another type has no value at such a type; these two instances answer it
  with a TypeError, which the language does not (no property below reads a stored text
  through them: the hook is evaluated with \<open>JSON\<close> itself, on any value).
  The value of a numeric literal is read as \<^verbatim>\<open>parseFloat\<close> reads it (the literals of the
  component are \<^verbatim>\<open>0\<close>, \<^verbatim>\<open>2\<close>, \<^verbatim>\<open>30\<close>, \<^verbatim>\<open>60\<close>, \<^verbatim>\<open>100\<close> and \<^verbatim>\<open>0.5\<close>). The time of day is written
  as hours, minutes and seconds of the clock reading; an error value is its message.
\<close>

definition digit_char :: "nat \<Rightarrow> char" where
  "digit_char n = char_of (48 + n mod 10)"

fun show_nat :: "nat \<Rightarrow> string" where
  "show_nat n = (if n < 10 then [digit_char n] else show_nat (n div 10) @ [digit_char n])"

declare show_nat.simps [simp del]

definition two_digits :: "nat \<Rightarrow> string" where
  "two_digits n = [digit_char (n div 10), digit_char n]"

definition clock_text :: "nat \<Rightarrow> string" where
  "clock_text t =
     two_digits (t div 3600000 mod 24) @ '':'' @ two_digits (t div 60000 mod 60) @ '':'' @
     two_digits (t div 1000 mod 60)"

definition bool_json :: "bool json" where
  "bool_json =
     \<lparr>JSON_stringify = (\<lambda>b. Inr (JSON_stringify_value (VBool b))),
      JSON_parse = (\<lambda>s. case JSON_parse_text s of
                           None \<Rightarrow> Inl SyntaxError
                         | Some (VBool b) \<Rightarrow> Inr b
                         | Some _ \<Rightarrow> Inl TypeError)\<rparr>"

definition number_json :: "jsnumber json" where
  "number_json =
     \<lparr>JSON_stringify = (\<lambda>x. Inr (JSON_stringify_value (VNumber x))),
      JSON_parse = (\<lambda>s. case JSON_parse_text s of
                           None \<Rightarrow> Inl SyntaxError
                         | Some (VNumber x) \<Rightarrow> Inr x
                         | Some _ \<Rightarrow> Inl TypeError)\<rparr>"

definition sample_js :: "(jsnumber, string) builtins" where
  "sample_js =
     \<lparr>json_bool = bool_json,
      json_number = number_json,
      quote_text = (\<lambda>s. QuoteJSONString (map of_char s)),
      number_text = (\<lambda>x. JSON_stringify_value (VNumber x)),
      toFixed2 = Number_toFixed2,
      num_lit = parseFloat_text,
      parseFloat = parseFloat_text,
      num_mul = Number_multiply,
      num_div = Number_divide,
      toLocaleTimeString = clock_text,
      toString = (\<lambda>msg. msg)\<rparr>"

definition empty_storage :: localStorage where
  "empty_storage = \<lparr>items = Map.empty, read_fault = None, write_fault = None\<rparr>"

definition sample_player :: "jsnumber ReactPlayer" where
  "sample_player =
     \<lparr>getCurrentTime = Finite False 0 0, getDuration = double_of_decimal False 212 0,
      seekRequests = []\<rparr>"

definition sample_world :: "jsnumber world" where
  "sample_world =
     \<lparr>host = Window empty_storage, timers = [], playerRef = None,
      isPlaying = True, volume = hundredths 50, hiddenVideo = False, muted = False,
      url = ''https://www.youtube.com/watch?v=8Pa9x9fZBtY'', callbackLogs = [],
      playerState =
        \<lparr>played = Finite False 0 0, playedSeconds = Finite False 0 0,
         loaded = Finite False 0 0, loadedSeconds = Finite False 0 0,
         duration = Finite False 0 0\<rparr>\<rparr>"

section \<open>Properties of the preference store\<close>

lemma useLocalStorageState_NoWindow:
  "useLocalStorageState j NoWindow key d = Inr d"
  by (simp add: useLocalStorageState_def)

lemma useLocalStorageState_absent:
  "getItem st key = Inr None \<Longrightarrow> useLocalStorageState j (Window st) key d = Inr d"
  by (simp add: useLocalStorageState_def try_catch_def bind_exn_def)

lemma useLocalStorageState_corrupt:
  "getItem st key = Inr (Some s) \<Longrightarrow> JSON_parse j s = Inl e \<Longrightarrow>
   useLocalStorageState j (Window st) key d = Inr d"
  by (simp add: useLocalStorageState_def try_catch_def bind_exn_def)

lemma useLocalStorageState_denied:
  "getItem st key = Inl e \<Longrightarrow> useLocalStorageState j (Window st) key d = Inr d"
  by (simp add: useLocalStorageState_def try_catch_def bind_exn_def)

lemma useLocalStorageState_stored:
  "getItem st key = Inr (Some s) \<Longrightarrow> JSON_parse j s = Inr v \<Longrightarrow>
   useLocalStorageState j (Window st) key d = Inr v"
  by (simp add: useLocalStorageState_def try_catch_def bind_exn_def)

lemma setValue_cases:
  "setValue j key v h = Inr (case persist j key v h of Inl e \<Rightarrow> h | Inr h' \<Rightarrow> h', v)"
  by (simp add: setValue_def try_catch_def bind_exn_def split: sum.split)

lemma persist_written:
  assumes "write_fault st = None" and "JSON_stringify j v = Inr s"
  shows "persist j key v (Window st) = Inr (Window (st\<lparr>items := (items st)(key \<mapsto> s)\<rparr>))"
  using assms by (simp add: persist_def window_localStorage_def setItem_def bind_exn_def)

lemma reload_reads_stored_text:
  assumes "read_fault st = None" and "write_fault st = None" and "JSON_stringify j v = Inr s"
  shows "setValue j key v (Window st) = Inr (Window (st\<lparr>items := (items st)(key \<mapsto> s)\<rparr>), v)"
    and "useLocalStorageState j (Window (st\<lparr>items := (items st)(key \<mapsto> s)\<rparr>)) key d
         = (case JSON_parse j s of Inl e \<Rightarrow> Inr d | Inr v' \<Rightarrow> Inr v')"
proof -
  from assms(2,3)
  show "setValue j key v (Window st) = Inr (Window (st\<lparr>items := (items st)(key \<mapsto> s)\<rparr>), v)"
    by (simp add: setValue_cases persist_written)
  from assms(1)
  show "useLocalStorageState j (Window (st\<lparr>items := (items st)(key \<mapsto> s)\<rparr>)) key d
        = (case JSON_parse j s of Inl e \<Rightarrow> Inr d | Inr v' \<Rightarrow> Inr v')"
    by (simp add: useLocalStorageState_def getItem_def try_catch_def bind_exn_def
        split: sum.split)
qed

text \<open>Evaluations of the language's functions: the texts used below.\<close>

lemma sample_texts:
  "JSON_stringify_value (VNumber (hundredths 80)) = ''0.8''"
  "JSON_parse_text ''0.8'' = Some (VNumber (hundredths 80))"
  "JSON_parse_text ''{bad'' = None"
  by code_simp+

lemma slider_numbers:
  "hundredths 50 = Finite False 4503599627370496 (- 53)"
  "hundredths 80 = Finite False 7205759403792794 (- 53)"
  "parseFloat_text ''0.5'' = hundredths 50"
  "parseFloat_text ''0.8'' = hundredths 80"
  by code_simp+

text \<open>
  Every value the volume slider can take is written by \<^verbatim>\<open>JSON.stringify\<close> as a text that
  \<^verbatim>\<open>JSON.parse\<close> reads back as the same number. (This is not so for every number: a
  number that is not finite is written \<^verbatim>\<open>null\<close>, and the negative zero is written \<^verbatim>\<open>0\<close>.)
\<close>

lemma slider_values_round_trip:
  "list_all (\<lambda>n. round_trips (VNumber (hundredths n))) [0..<101]"
  by code_simp

lemma slider_value_round_trips:
  assumes "n \<le> 100"
  shows "JSON_parse_text (JSON_stringify_value (VNumber (hundredths n)))
         = Some (VNumber (hundredths n))"
proof -
  from assms have "n \<in> set [0..<101]" by simp
  with slider_values_round_trip have "round_trips (VNumber (hundredths n))"
    by (simp add: list_all_iff)
  then show ?thesis by (simp add: round_trips_def)
qed

text \<open>
  C3. Whatever the key and the default: when there is no host environment, when
  storage has no entry under the key, or when the entry does not parse (and also when
  reading storage throws), the hook starts with the default, and it does so as a
  normal return (\<open>Inr\<close>), not as an exception.
\<close>

theorem init_falls_back_to_default:
  assumes "h = NoWindow
         \<or> (\<exists>st. h = Window st \<and>
              (getItem st key = Inr None
             \<or> (\<exists>s e. getItem st key = Inr (Some s) \<and> JSON_parse j s = Inl e)
             \<or> (\<exists>e. getItem st key = Inl e)))"
  shows "useLocalStorageState j h key d = Inr d"
  using assms
  by (auto simp: useLocalStorageState_NoWindow useLocalStorageState_absent
      useLocalStorageState_corrupt useLocalStorageState_denied)

theorem init_falls_back_to_default_witness:
  "useLocalStorageState JSON NoWindow ''volume'' (VNumber (hundredths 50))
     = Inr (VNumber (hundredths 50))
 \<and> useLocalStorageState JSON (Window empty_storage) ''volume'' (VNumber (hundredths 50))
     = Inr (VNumber (hundredths 50))
 \<and> useLocalStorageState JSON
      (Window (empty_storage\<lparr>items := [''volume'' \<mapsto> ''{bad'']\<rparr>)) ''volume''
      (VNumber (hundredths 50))
     = Inr (VNumber (hundredths 50))
 \<and> useLocalStorageState JSON
      (Window (empty_storage\<lparr>read_fault := Some SecurityError\<rparr>)) ''volume''
      (VNumber (hundredths 50))
     = Inr (VNumber (hundredths 50))"
proof (intro conjI)
  show "useLocalStorageState JSON NoWindow ''volume'' (VNumber (hundredths 50))
      = Inr (VNumber (hundredths 50))"
    by (rule init_falls_back_to_default) simp
  show "useLocalStorageState JSON (Window empty_storage) ''volume'' (VNumber (hundredths 50))
      = Inr (VNumber (hundredths 50))"
    by (rule init_falls_back_to_default) (simp add: getItem_def empty_storage_def)
  show "useLocalStorageState JSON
      (Window (empty_storage\<lparr>items := [''volume'' \<mapsto> ''{bad'']\<rparr>)) ''volume''
      (VNumber (hundredths 50))
     = Inr (VNumber (hundredths 50))"
    by (rule init_falls_back_to_default)
      (simp add: getItem_def empty_storage_def JSON_def sample_texts)
  show "useLocalStorageState JSON
      (Window (empty_storage\<lparr>read_fault := Some SecurityError\<rparr>)) ''volume''
      (VNumber (hundredths 50))
     = Inr (VNumber (hundredths 50))"
    by (rule init_falls_back_to_default) (simp add: getItem_def empty_storage_def)
qed

text \<open>
  C4. Whatever the key, the value, the host and its storage: the setter returns
  normally with the in-memory state equal to the value it was given, so a read of the
  state right after it yields that value. When the write throws (no window, a value
  that does not serialise, a storage that refuses the write) the exception does not
  leave the setter, storage is as it was, and the state is the same as after a write
  that succeeded.
\<close>

theorem setValue_state_regardless_of_write:
  "(\<exists>h'. setValue j key v h = Inr (h', v))
 \<and> (\<forall>e. persist j key v h = Inl e \<longrightarrow> setValue j key v h = Inr (h, v))
 \<and> (\<forall>h'. persist j key v h = Inr h' \<longrightarrow> setValue j key v h = Inr (h', v))"
  by (simp add: setValue_cases)

theorem setValue_state_regardless_of_write_witness:
  "persist JSON ''volume'' (VNumber (hundredths 80))
     (Window (empty_storage\<lparr>write_fault := Some QuotaExceededError\<rparr>)) = Inl QuotaExceededError
 \<and> setValue JSON ''volume'' (VNumber (hundredths 80))
     (Window (empty_storage\<lparr>write_fault := Some QuotaExceededError\<rparr>))
   = Inr (Window (empty_storage\<lparr>write_fault := Some QuotaExceededError\<rparr>),
          VNumber (hundredths 80))
 \<and> persist JSON ''volume'' (VNumber (hundredths 80)) (Window empty_storage)
   = Inr (Window (empty_storage\<lparr>items := [''volume'' \<mapsto> ''0.8'']\<rparr>))
 \<and> setValue JSON ''volume'' (VNumber (hundredths 80)) (Window empty_storage)
   = Inr (Window (empty_storage\<lparr>items := [''volume'' \<mapsto> ''0.8'']\<rparr>), VNumber (hundredths 80))"
proof -
  let ?full = "Window (empty_storage\<lparr>write_fault := Some QuotaExceededError\<rparr>)"
  let ?v = "VNumber (hundredths 80)"
  have fails: "persist JSON ''volume'' ?v ?full = Inl QuotaExceededError"
    by (simp add: persist_def window_localStorage_def setItem_def bind_exn_def
        JSON_def empty_storage_def)
  have writes: "persist JSON ''volume'' ?v (Window empty_storage)
      = Inr (Window (empty_storage\<lparr>items := [''volume'' \<mapsto> ''0.8'']\<rparr>))"
    by (simp add: persist_written [where s = "''0.8''"] JSON_def sample_texts
        empty_storage_def)
  from fails writes
    setValue_state_regardless_of_write [of JSON "''volume''" ?v ?full]
    setValue_state_regardless_of_write [of JSON "''volume''" ?v "Window empty_storage"]
  show ?thesis by simp
qed

text \<open>
  C5. With a storage that holds nothing under the key and refuses nothing, the hook
  starts with the default. Once the setter has written the JSON text of a value, a
  fresh instance of the hook on the storage the setter left starts with what that text
  parses to (with the default if it does not parse). With the JSON functions of the
  language and a value \<open>n / 100\<close> of the volume slider (0.8 is \<open>n = 80\<close>), the text
  written parses back to the value, so the fresh instance starts with it, whatever its
  default (0.5 for \<^verbatim>\<open>volume\<close>).
\<close>

theorem stored_value_survives_reload:
  assumes "items st key = None" and "read_fault st = None" and "write_fault st = None"
  shows "useLocalStorageState j (Window st) key d = Inr d
       \<and> (\<forall>s. JSON_stringify j v = Inr s \<longrightarrow>
              setValue j key v (Window st)
                = Inr (Window (st\<lparr>items := (items st)(key \<mapsto> s)\<rparr>), v)
            \<and> useLocalStorageState j (Window (st\<lparr>items := (items st)(key \<mapsto> s)\<rparr>)) key d
                = (case JSON_parse j s of Inl e \<Rightarrow> Inr d | Inr v' \<Rightarrow> Inr v'))
       \<and> (\<forall>n \<le> 100. \<exists>s.
              JSON_stringify JSON (VNumber (hundredths n)) = Inr s
            \<and> JSON_parse JSON s = Inr (VNumber (hundredths n))
            \<and> setValue JSON key (VNumber (hundredths n)) (Window st)
                = Inr (Window (st\<lparr>items := (items st)(key \<mapsto> s)\<rparr>), VNumber (hundredths n))
            \<and> useLocalStorageState JSON (Window (st\<lparr>items := (items st)(key \<mapsto> s)\<rparr>)) key dflt
                = Inr (VNumber (hundredths n)))"
proof (intro conjI allI impI)
  from assms(1,2) show "useLocalStorageState j (Window st) key d = Inr d"
    by (simp add: useLocalStorageState_absent getItem_def)
next
  fix s assume "JSON_stringify j v = Inr s"
  with assms(2,3)
  show "setValue j key v (Window st) = Inr (Window (st\<lparr>items := (items st)(key \<mapsto> s)\<rparr>), v)"
    by (rule reload_reads_stored_text(1))
next
  fix s assume "JSON_stringify j v = Inr s"
  with assms(2,3)
  show "useLocalStorageState j (Window (st\<lparr>items := (items st)(key \<mapsto> s)\<rparr>)) key d
        = (case JSON_parse j s of Inl e \<Rightarrow> Inr d | Inr v' \<Rightarrow> Inr v')"
    by (rule reload_reads_stored_text(2))
next
  fix n :: nat assume "n \<le> 100"
  let ?v = "VNumber (hundredths n)"
  let ?s = "JSON_stringify_value ?v"
  have written: "JSON_stringify JSON ?v = Inr ?s" by (simp add: JSON_def)
  from \<open>n \<le> 100\<close> have parsed: "JSON_parse JSON ?s = Inr ?v"
    by (simp add: JSON_def slider_value_round_trips)
  from assms(2,3) written
  have "setValue JSON key ?v (Window st)
        = Inr (Window (st\<lparr>items := (items st)(key \<mapsto> ?s)\<rparr>), ?v)"
    by (rule reload_reads_stored_text(1))
  moreover from assms(2,3) written parsed
  have "useLocalStorageState JSON (Window (st\<lparr>items := (items st)(key \<mapsto> ?s)\<rparr>)) key dflt
        = Inr ?v"
    by (simp add: reload_reads_stored_text(2))
  ultimately show "\<exists>s. JSON_stringify JSON ?v = Inr s \<and> JSON_parse JSON s = Inr ?v
      \<and> setValue JSON key ?v (Window st) = Inr (Window (st\<lparr>items := (items st)(key \<mapsto> s)\<rparr>), ?v)
      \<and> useLocalStorageState JSON (Window (st\<lparr>items := (items st)(key \<mapsto> s)\<rparr>)) key dflt = Inr ?v"
    using written parsed by blast
qed

theorem stored_value_survives_reload_witness:
  "useLocalStorageState JSON (Window empty_storage) ''volume'' (VNumber (hundredths 50))
     = Inr (VNumber (hundredths 50))
 \<and> setValue JSON ''volume'' (VNumber (hundredths 80)) (Window empty_storage)
     = Inr (Window (empty_storage\<lparr>items := [''volume'' \<mapsto> ''0.8'']\<rparr>), VNumber (hundredths 80))
 \<and> JSON_parse JSON ''0.8'' = Inr (VNumber (hundredths 80))
 \<and> useLocalStorageState JSON (Window (empty_storage\<lparr>items := [''volume'' \<mapsto> ''0.8'']\<rparr>))
      ''volume'' (VNumber (hundredths 50))
     = Inr (VNumber (hundredths 80))"
proof -
  have storage: "items empty_storage ''volume'' = None" "read_fault empty_storage = None"
    "write_fault empty_storage = None"
    by (simp_all add: empty_storage_def)
  note reload = stored_value_survives_reload [OF storage,
      where j = JSON and d = "VNumber (hundredths 50)" and v = "VNumber (hundredths 80)"
        and dflt = "VNumber (hundredths 50)"]
  have written: "JSON_stringify JSON (VNumber (hundredths 80)) = Inr ''0.8''"
    by (simp add: JSON_def sample_texts)
  have eighty: "(80 :: nat) \<le> 100" by simp
  from reload eighty obtain s where
    s: "JSON_stringify JSON (VNumber (hundredths 80)) = Inr s"
      "JSON_parse JSON s = Inr (VNumber (hundredths 80))"
      "setValue JSON ''volume'' (VNumber (hundredths 80)) (Window empty_storage)
         = Inr (Window (empty_storage\<lparr>items := (items empty_storage)(''volume'' \<mapsto> s)\<rparr>),
                VNumber (hundredths 80))"
      "useLocalStorageState JSON
         (Window (empty_storage\<lparr>items := (items empty_storage)(''volume'' \<mapsto> s)\<rparr>))
         ''volume'' (VNumber (hundredths 50)) = Inr (VNumber (hundredths 80))"
    by blast
  from s(1) written have "s = ''0.8''" by simp
  moreover have "(items empty_storage)(''volume'' \<mapsto> ''0.8'') = [''volume'' \<mapsto> ''0.8'']"
    by (simp add: empty_storage_def)
  moreover from reload
  have "useLocalStorageState JSON (Window empty_storage) ''volume'' (VNumber (hundredths 50))
      = Inr (VNumber (hundredths 50))"
    by blast
  ultimately show ?thesis using s by simp
qed

section \<open>Properties of the event log\<close>

lemma take_append_take: "take n (xs @ take n ys) = take n (xs @ ys)"
  by (simp add: min_def)

lemma callbackLogs_addLog:
  "callbackLogs (addLog js t ev d w) = take 50 (logEntry js t ev d # callbackLogs w)"
  by (simp add: addLog_def)

lemma callbackLogs_appends_step:
  "callbackLogs (appends js calls w) =
     (if calls = [] then callbackLogs w
      else take 50 (rev (map (\<lambda>(t, ev, d). logEntry js t ev d) calls) @ callbackLogs w))"
proof (induction calls arbitrary: w)
  case Nil
  show ?case by simp
next
  case (Cons c calls)
  obtain t ev d where c: "c = (t, ev, d)" by (cases c)
  show ?case
  proof (cases "calls = []")
    case True
    with c show ?thesis by (simp add: callbackLogs_addLog)
  next
    case False
    let ?new = "rev (map (\<lambda>(t, ev, d). logEntry js t ev d) calls)"
    from False c Cons.IH [of "addLog js t ev d w"]
    have "callbackLogs (appends js (c # calls) w)
        = take 50 (?new @ take 50 (logEntry js t ev d # callbackLogs w))"
      by (simp add: callbackLogs_addLog)
    also have "\<dots> = take 50 (?new @ logEntry js t ev d # callbackLogs w)"
      by (rule take_append_take)
    finally show ?thesis using c by simp
  qed
qed

lemma callbackLogs_appends:
  assumes "length (callbackLogs w) \<le> 50"
  shows "callbackLogs (appends js calls w) =
         take 50 (rev (map (\<lambda>(t, ev, d). logEntry js t ev d) calls) @ callbackLogs w)"
  using assms by (simp add: callbackLogs_appends_step)

text \<open>
  C1. From a log of at most 50 entries, after every sequence of \<^verbatim>\<open>addLog\<close> calls, and
  after every initial part of it, the log has at most 50 entries and is newest first:
  it is the entries of the calls, latest call at the head, followed by the entries it
  started with, cut to 50.
\<close>

theorem log_bounded_newest_first:
  assumes "length (callbackLogs w) \<le> 50"
  shows "length (callbackLogs (appends js (take n calls) w)) \<le> 50
       \<and> callbackLogs (appends js (take n calls) w) =
           take 50 (rev (map (\<lambda>(t, ev, d). logEntry js t ev d) (take n calls)) @ callbackLogs w)"
  using assms by (simp add: callbackLogs_appends)

theorem log_bounded_newest_first_witness:
  "length (callbackLogs (appends sample_js
      (take 2 [(1000, ''onReady'', [(''player'', JString ''ready'')]), (2000, ''onPlay'', []),
               (3000, ''onPause'', [])]) sample_world)) \<le> 50
 \<and> map event (callbackLogs (appends sample_js
      (take 2 [(1000, ''onReady'', [(''player'', JString ''ready'')]), (2000, ''onPlay'', []),
               (3000, ''onPause'', [])]) sample_world)) = [''onPlay'', ''onReady'']"
  using log_bounded_newest_first [of sample_world sample_js 2
      "[(1000, ''onReady'', [(''player'', JString ''ready'')]), (2000, ''onPlay'', []),
        (3000, ''onPause'', [])]"]
  by (simp add: sample_world_def logEntry_def)

text \<open>
  C2. From the empty log, 55 \<^verbatim>\<open>addLog\<close> calls leave exactly 50 entries: those of the last
  50 calls, latest first; the entries of the first five calls are gone. (This holds
  whether or not the 55 events are distinct.)
\<close>

theorem fiftyfive_appends_keep_latest_fifty:
  assumes "callbackLogs w = []" and "length calls = 55"
  shows "length (callbackLogs (appends js calls w)) = 50
       \<and> callbackLogs (appends js calls w) =
           rev (map (\<lambda>(t, ev, d). logEntry js t ev d) (drop 5 calls))"
proof -
  let ?entries = "map (\<lambda>(t, ev, d). logEntry js t ev d) calls"
  from assms have "callbackLogs (appends js calls w) = take 50 (rev ?entries)"
    by (simp add: callbackLogs_appends)
  also from assms(2) have "\<dots> = rev (drop 5 ?entries)"
    by (simp add: take_rev)
  finally have "callbackLogs (appends js calls w) = rev (drop 5 ?entries)" .
  with assms(2) show ?thesis by (simp add: drop_map)
qed

theorem fiftyfive_appends_keep_latest_fifty_witness:
  "length (callbackLogs (appends sample_js
      (map (\<lambda>i. (1000 * i, ''event'' @ show_nat i, [])) [0..<55]) sample_world)) = 50
 \<and> map event (callbackLogs (appends sample_js
      (map (\<lambda>i. (1000 * i, ''event'' @ show_nat i, [])) [0..<55]) sample_world))
    = rev (map (\<lambda>i. ''event'' @ show_nat i) [5..<55])"
  using fiftyfive_appends_keep_latest_fifty [of sample_world
      "map (\<lambda>i. (1000 * i, ''event'' @ show_nat i, [])) [0..<55]" sample_js]
  by (simp add: sample_world_def logEntry_def drop_map rev_map comp_def)

section \<open>Properties of the component\<close>

text \<open>
  Each setter and handler as one update of the world. The host a setter leaves is the
  one with the value stored if the write went through, the one before if it threw.
\<close>

lemma setIsPlaying_eq:
  "setIsPlaying js v w =
     Inr (w\<lparr>host := (case persist (json_bool js) ''isPlaying'' v (host w) of
                      Inl e \<Rightarrow> host w | Inr h' \<Rightarrow> h'),
           isPlaying := v\<rparr>)"
  by (simp add: setIsPlaying_def setValue_cases bind_exn_def)

lemma setMuted_eq:
  "setMuted js v w =
     Inr (w\<lparr>host := (case persist (json_bool js) ''muted'' v (host w) of
                      Inl e \<Rightarrow> host w | Inr h' \<Rightarrow> h'),
           muted := v\<rparr>)"
  by (simp add: setMuted_def setValue_cases bind_exn_def)

lemma setHiddenVideo_eq:
  "setHiddenVideo js v w =
     Inr (w\<lparr>host := (case persist (json_bool js) ''hiddenVideo'' v (host w) of
                      Inl e \<Rightarrow> host w | Inr h' \<Rightarrow> h'),
           hiddenVideo := v\<rparr>)"
  by (simp add: setHiddenVideo_def setValue_cases bind_exn_def)

lemma setVolume_eq:
  "setVolume js v w =
     Inr (w\<lparr>host := (case persist (json_number js) ''volume'' v (host w) of
                      Inl e \<Rightarrow> host w | Inr h' \<Rightarrow> h'),
           volume := v\<rparr>)"
  by (simp add: setVolume_def setValue_cases bind_exn_def)

lemma testBatchPauseAndPlay_eq:
  "testBatchPauseAndPlay js t w =
     Inr (w\<lparr>host := (case persist (json_bool js) ''isPlaying'' False (host w) of
                      Inl e \<Rightarrow> host w | Inr h' \<Rightarrow> h'),
           isPlaying := False,
           timers := timers w @ [\<lparr>due = t + 500, callback = SetIsPlayingTrue\<rparr>]\<rparr>)"
  by (simp add: testBatchPauseAndPlay_def setIsPlaying_eq bind_exn_def setTimeout_def)

lemma run_callback_eq:
  "run_callback js cb w =
     Inr (w\<lparr>host := (case persist (json_bool js) ''isPlaying'' True (host w) of
                      Inl e \<Rightarrow> host w | Inr h' \<Rightarrow> h'),
           isPlaying := True\<rparr>)"
  by (cases cb) (simp add: run_callback_def setIsPlaying_eq)

lemma run_timers_eq:
  "\<exists>h'. run_timers js tms w =
     Inr (w\<lparr>host := h', isPlaying := (if tms = [] then isPlaying w else True)\<rparr>)"
proof (induction tms arbitrary: w)
  case Nil
  show ?case by (rule exI [of _ "host w"]) simp
next
  case (Cons tm tms)
  obtain h1 where h1: "run_callback js (callback tm) w = Inr (w\<lparr>host := h1, isPlaying := True\<rparr>)"
    using run_callback_eq by blast
  obtain h2 where "run_timers js tms (w\<lparr>host := h1, isPlaying := True\<rparr>) =
      Inr (w\<lparr>host := h1, isPlaying := True\<rparr>
            \<lparr>host := h2, isPlaying := (if tms = [] then True else True)\<rparr>)"
    using Cons.IH [of "w\<lparr>host := h1, isPlaying := True\<rparr>"] by auto
  with h1 have "run_timers js (tm # tms) w = Inr (w\<lparr>host := h2, isPlaying := True\<rparr>)"
    by (simp add: bind_exn_def)
  then show ?case by auto
qed

lemma elapse_eq:
  "\<exists>h'. elapse js t w =
     Inr (w\<lparr>timers := filter (\<lambda>tm. t < due tm) (timers w), host := h',
           isPlaying := (if due_timers t w = [] then isPlaying w else True)\<rparr>)"
proof -
  let ?w = "w\<lparr>timers := filter (\<lambda>tm. t < due tm) (timers w)\<rparr>"
  obtain h' where "run_timers js (due_timers t w) ?w =
      Inr (?w\<lparr>host := h', isPlaying := (if due_timers t w = [] then isPlaying ?w else True)\<rparr>)"
    using run_timers_eq [of js "due_timers t w" ?w] by blast
  then have "elapse js t w =
      Inr (w\<lparr>timers := filter (\<lambda>tm. t < due tm) (timers w), host := h',
            isPlaying := (if due_timers t w = [] then isPlaying w else True)\<rparr>)"
    by (simp add: elapse_def)
  then show ?thesis by blast
qed

lemma seekTo_eq:
  "seekTo js t seconds w =
     (case playerRef w of
        None \<Rightarrow> w
      | Some p \<Rightarrow>
          w\<lparr>playerRef := Some (p\<lparr>seekRequests := seekRequests p @ [seconds]\<rparr>),
            callbackLogs :=
              take 50 (logEntry js t ''Manual seekTo'' [(''seconds'', JNumber seconds)]
                       # callbackLogs w)\<rparr>)"
  by (simp add: seekTo_def addLog_def player_seekTo_def split: option.split)

lemma handle_total: "\<exists>w'. handle js t e w = Inr w'"
proof (cases e)
  case TimersDue
  then show ?thesis using elapse_eq [of js t w] by (auto simp: handle_def)
qed (simp_all add: handle_def setIsPlaying_eq setMuted_eq setVolume_eq setHiddenVideo_eq
    testBatchPauseAndPlay_eq handleEnded_def)

lemma run_total: "\<exists>w'. run js es w = Inr w'"
proof (induction es arbitrary: w)
  case Nil
  show ?case by simp
next
  case (Cons te es)
  obtain t e where te: "te = (t, e)" by (cases te)
  obtain w1 where "handle js t e w = Inr w1" using handle_total by blast
  with te Cons.IH [of w1] show ?case by (simp add: bind_exn_def)
qed

lemma handle_quiet_log:
  assumes "\<not> logging e" and "handle js t e w = Inr w'"
  shows "callbackLogs w' = callbackLogs w \<or> callbackLogs w' = []"
proof (cases e)
  case TimersDue
  with assms(2) elapse_eq [of js t w] show ?thesis by (auto simp: handle_def)
qed (use assms in \<open>auto simp: handle_def setIsPlaying_eq setMuted_eq setVolume_eq
    setHiddenVideo_eq testBatchPauseAndPlay_eq clearLogs_def\<close>)

lemma handle_playerState:
  assumes "\<forall>p. e \<noteq> OnProgress p" and "handle js t e w = Inr w'"
  shows "playerState w' = playerState w"
proof (cases e)
  case TimersDue
  with assms(2) elapse_eq [of js t w] show ?thesis by (auto simp: handle_def)
qed (use assms in \<open>auto simp: handle_def setIsPlaying_eq setMuted_eq setVolume_eq
    setHiddenVideo_eq testBatchPauseAndPlay_eq clearLogs_def handleReady_def handleStart_def
    handlePlay_def handlePause_def handleEnded_def handleError_def handleDuration_def
    handleSeek_def seekTo_eq seekToMiddle_def addLog_def Let_def split: option.splits\<close>)

lemma handle_timers:
  assumes "tm \<in> set (timers w)" and "handle js t e w = Inr w'"
  shows "tm \<in> set (timers w') \<or> (e = TimersDue \<and> tm \<in> set (due_timers t w))"
proof (cases e)
  case TimersDue
  with assms elapse_eq [of js t w] show ?thesis
    by (cases "t < due tm") (auto simp: handle_def due_timers_def)
qed (use assms in \<open>auto simp: handle_def setIsPlaying_eq setMuted_eq setVolume_eq
    setHiddenVideo_eq testBatchPauseAndPlay_eq clearLogs_def handleReady_def handleStart_def
    handlePlay_def handlePause_def handleEnded_def handleError_def handleDuration_def
    handleProgress_def handleSeek_def seekTo_eq seekToMiddle_def addLog_def Let_def
    split: option.splits\<close>)

lemma set_due_timers: "set (due_timers t w) = {tm \<in> set (timers w). due tm \<le> t}"
  by (simp add: due_timers_def)

lemma length_due_timers:
  "length (due_timers t w) = length (filter (\<lambda>tm. due tm \<le> t) (timers w))"
  by (simp add: due_timers_def)

lemma due_timers_empty: "due_timers t w = [] \<longleftrightarrow> (\<forall>tm \<in> set (timers w). t < due tm)"
proof -
  have "due_timers t w = [] \<longleftrightarrow> filter (\<lambda>tm. due tm \<le> t) (timers w) = []"
    using length_due_timers [of t w] by (metis length_0_conv)
  then show ?thesis by (auto simp: filter_empty_conv not_le)
qed

lemma elapse_props:
  "\<exists>w2. elapse js t w = Inr w2 \<and> handle js t TimersDue w = Inr w2
      \<and> isPlaying w2 = (if due_timers t w = [] then isPlaying w else True)
      \<and> timers w2 = filter (\<lambda>tm. t < due tm) (timers w)"
  using elapse_eq [of js t w] by (auto simp: handle_def)

lemma run_triggers:
  "\<exists>wn. run js (map (\<lambda>t. (t, ClickTestBatch)) ts) w = Inr wn
      \<and> timers wn = timers w @ map (\<lambda>t. \<lparr>due = t + 500, callback = SetIsPlayingTrue\<rparr>) ts"
proof (induction ts arbitrary: w)
  case Nil
  show ?case by simp
next
  case (Cons t ts)
  let ?w1 = "w\<lparr>host := (case persist (json_bool js) ''isPlaying'' False (host w) of
                          Inl e \<Rightarrow> host w | Inr h' \<Rightarrow> h'),
               isPlaying := False,
               timers := timers w @ [\<lparr>due = t + 500, callback = SetIsPlayingTrue\<rparr>]\<rparr>"
  have step: "handle js t ClickTestBatch w = Inr ?w1"
    by (simp add: handle_def testBatchPauseAndPlay_eq)
  obtain wn where "run js (map (\<lambda>t. (t, ClickTestBatch)) ts) ?w1 = Inr wn"
    and "timers wn = timers ?w1 @ map (\<lambda>t. \<lparr>due = t + 500, callback = SetIsPlayingTrue\<rparr>) ts"
    using Cons.IH [of ?w1] by blast
  with step show ?case by (simp add: bind_exn_def)
qed

lemma run_quiet_log:
  assumes "callbackLogs w = []" and "\<forall>te \<in> set es. \<not> logging (snd te)"
  shows "\<exists>w'. run js es w = Inr w' \<and> callbackLogs w' = []"
  using assms
proof (induction es arbitrary: w)
  case Nil
  then show ?case by simp
next
  case (Cons te es)
  obtain t e where te: "te = (t, e)" by (cases te)
  obtain w1 where w1: "handle js t e w = Inr w1" using handle_total by blast
  from Cons.prems te have "\<not> logging e" by simp
  with w1 Cons.prems(1) have "callbackLogs w1 = []"
    using handle_quiet_log [of e js t w w1] by auto
  with Cons.IH [of w1] Cons.prems(2) obtain w' where
    "run js es w1 = Inr w'" and "callbackLogs w' = []" by auto
  with te w1 show ?case by (simp add: bind_exn_def)
qed

text \<open>
  C6. The trigger, whenever clicked (time \<open>t\<close>), returns with the playing flag false and
  one more pending timer, due 500 ms later, whose callback sets the flag to true
  whatever the state it runs in. When the host runs its due timers at or after that
  time, this timer is among those run, is gone from the queue, and the flag is
  true; run before that time (no other timer being due), the flag stays false. No event
  removes a pending timer except the host running it, and \<open>n\<close> triggers leave \<open>n\<close>
  timers, all of which are run once they are due.
\<close>

theorem deferred_toggle:
  "(\<exists>w1. testBatchPauseAndPlay js t w = Inr w1
        \<and> handle js t ClickTestBatch w = Inr w1
        \<and> isPlaying w1 = False
        \<and> timers w1 = timers w @ [\<lparr>due = t + 500, callback = SetIsPlayingTrue\<rparr>]
        \<and> (\<forall>t'. t + 500 \<le> t' \<longrightarrow>
              (\<exists>w2. elapse js t' w1 = Inr w2 \<and> handle js t' TimersDue w1 = Inr w2
                   \<and> \<lparr>due = t + 500, callback = SetIsPlayingTrue\<rparr> \<in> set (due_timers t' w1)
                   \<and> isPlaying w2 = True
                   \<and> (\<forall>tm \<in> set (timers w2). t' < due tm)))
        \<and> (\<forall>t'. t' < t + 500 \<longrightarrow> due_timers t' w = [] \<longrightarrow>
              (\<exists>w2. elapse js t' w1 = Inr w2 \<and> isPlaying w2 = False
                   \<and> \<lparr>due = t + 500, callback = SetIsPlayingTrue\<rparr> \<in> set (timers w2))))
 \<and> (\<forall>w0. \<exists>w3. run_callback js SetIsPlayingTrue w0 = Inr w3 \<and> isPlaying w3 = True)
 \<and> (\<forall>e t' w0 w' tm. tm \<in> set (timers w0) \<longrightarrow> handle js t' e w0 = Inr w' \<longrightarrow>
        tm \<in> set (timers w') \<or> (e = TimersDue \<and> tm \<in> set (due_timers t' w0)))
 \<and> (\<forall>ts. \<exists>wn. run js (map (\<lambda>t. (t, ClickTestBatch)) ts) w = Inr wn
        \<and> timers wn = timers w @ map (\<lambda>t. \<lparr>due = t + 500, callback = SetIsPlayingTrue\<rparr>) ts
        \<and> (\<forall>T. (\<forall>t \<in> set ts. t + 500 \<le> T) \<longrightarrow>
              length (due_timers T wn) = length (due_timers T w) + length ts))"
proof (intro conjI allI)
  let ?tm = "\<lparr>due = t + 500, callback = SetIsPlayingTrue\<rparr>"
  let ?w1 = "w\<lparr>host := (case persist (json_bool js) ''isPlaying'' False (host w) of
                          Inl e \<Rightarrow> host w | Inr h' \<Rightarrow> h'),
               isPlaying := False, timers := timers w @ [?tm]\<rparr>"
  have trigger: "testBatchPauseAndPlay js t w = Inr ?w1"
    by (rule testBatchPauseAndPlay_eq)
  have late: "\<exists>w2. elapse js t' ?w1 = Inr w2 \<and> handle js t' TimersDue ?w1 = Inr w2
      \<and> ?tm \<in> set (due_timers t' ?w1) \<and> isPlaying w2 = True
      \<and> (\<forall>tm \<in> set (timers w2). t' < due tm)" if "t + 500 \<le> t'" for t'
  proof -
    from that have mem: "?tm \<in> set (due_timers t' ?w1)" by (simp add: set_due_timers)
    then have "due_timers t' ?w1 \<noteq> []" by auto
    with elapse_props [of js t' ?w1] mem show ?thesis by auto
  qed
  have early: "\<exists>w2. elapse js t' ?w1 = Inr w2 \<and> isPlaying w2 = False
      \<and> ?tm \<in> set (timers w2)" if "t' < t + 500" and "due_timers t' w = []" for t'
  proof -
    from that have "due_timers t' ?w1 = []" by (auto simp: due_timers_empty)
    with elapse_props [of js t' ?w1] that(1) show ?thesis by auto
  qed
  from late have l: "\<forall>t'. t + 500 \<le> t' \<longrightarrow>
      (\<exists>w2. elapse js t' ?w1 = Inr w2 \<and> handle js t' TimersDue ?w1 = Inr w2
           \<and> ?tm \<in> set (due_timers t' ?w1) \<and> isPlaying w2 = True
           \<and> (\<forall>tm \<in> set (timers w2). t' < due tm))"
    by blast
  from early have e: "\<forall>t'. t' < t + 500 \<longrightarrow> due_timers t' w = [] \<longrightarrow>
      (\<exists>w2. elapse js t' ?w1 = Inr w2 \<and> isPlaying w2 = False \<and> ?tm \<in> set (timers w2))"
    by blast
  show "\<exists>w1. testBatchPauseAndPlay js t w = Inr w1
        \<and> handle js t ClickTestBatch w = Inr w1
        \<and> isPlaying w1 = False
        \<and> timers w1 = timers w @ [?tm]
        \<and> (\<forall>t'. t + 500 \<le> t' \<longrightarrow>
              (\<exists>w2. elapse js t' w1 = Inr w2 \<and> handle js t' TimersDue w1 = Inr w2
                   \<and> ?tm \<in> set (due_timers t' w1)
                   \<and> isPlaying w2 = True
                   \<and> (\<forall>tm \<in> set (timers w2). t' < due tm)))
        \<and> (\<forall>t'. t' < t + 500 \<longrightarrow> due_timers t' w = [] \<longrightarrow>
              (\<exists>w2. elapse js t' w1 = Inr w2 \<and> isPlaying w2 = False
                   \<and> ?tm \<in> set (timers w2)))"
    by (intro exI [of _ ?w1] conjI; (rule trigger l e | simp add: handle_def trigger))
next
  fix w0 :: "'a world"
  show "\<exists>w3. run_callback js SetIsPlayingTrue w0 = Inr w3 \<and> isPlaying w3 = True"
    by (simp add: run_callback_eq)
next
  fix e t' and w0 w' :: "'a world" and tm
  show "tm \<in> set (timers w0) \<longrightarrow> handle js t' e w0 = Inr w' \<longrightarrow>
        tm \<in> set (timers w') \<or> (e = TimersDue \<and> tm \<in> set (due_timers t' w0))"
    using handle_timers [of tm w0 js t' e w'] by blast
next
  fix ts
  obtain wn where wn: "run js (map (\<lambda>t. (t, ClickTestBatch)) ts) w = Inr wn"
    "timers wn = timers w @ map (\<lambda>t. \<lparr>due = t + 500, callback = SetIsPlayingTrue\<rparr>) ts"
    using run_triggers [of js ts w] by blast
  have "length (due_timers T wn) = length (due_timers T w) + length ts"
    if "\<forall>t \<in> set ts. t + 500 \<le> T" for T
  proof -
    from that have "filter (\<lambda>tm. due tm \<le> T)
        (map (\<lambda>t. \<lparr>due = t + 500, callback = SetIsPlayingTrue\<rparr>) ts)
        = map (\<lambda>t. \<lparr>due = t + 500, callback = SetIsPlayingTrue\<rparr>) ts"
      by (simp add: filter_map comp_def)
    with wn(2) show ?thesis by (simp add: length_due_timers)
  qed
  with wn show "\<exists>wn. run js (map (\<lambda>t. (t, ClickTestBatch)) ts) w = Inr wn
        \<and> timers wn = timers w @ map (\<lambda>t. \<lparr>due = t + 500, callback = SetIsPlayingTrue\<rparr>) ts
        \<and> (\<forall>T. (\<forall>t \<in> set ts. t + 500 \<le> T) \<longrightarrow>
              length (due_timers T wn) = length (due_timers T w) + length ts)"
    by blast
qed

theorem deferred_toggle_witness:
  "(\<exists>w1 w2. testBatchPauseAndPlay sample_js 1000 sample_world = Inr w1 \<and> isPlaying w1 = False
        \<and> elapse sample_js 1500 w1 = Inr w2 \<and> isPlaying w2 = True)
 \<and> (\<exists>w1 w2. testBatchPauseAndPlay sample_js 1000 sample_world = Inr w1
        \<and> elapse sample_js 1499 w1 = Inr w2 \<and> isPlaying w2 = False)
 \<and> (\<exists>wn. run sample_js [(1000, ClickTestBatch), (1200, ClickTestBatch)] sample_world = Inr wn
        \<and> length (due_timers 1700 wn) = 2)"
proof -
  note toggle = deferred_toggle [of sample_js 1000 sample_world]
  from toggle obtain w1 where w1: "testBatchPauseAndPlay sample_js 1000 sample_world = Inr w1"
      "isPlaying w1 = False"
    and late: "\<forall>t'. 1000 + 500 \<le> t' \<longrightarrow>
        (\<exists>w2. elapse sample_js t' w1 = Inr w2 \<and> handle sample_js t' TimersDue w1 = Inr w2
           \<and> \<lparr>due = 1000 + 500, callback = SetIsPlayingTrue\<rparr> \<in> set (due_timers t' w1)
           \<and> isPlaying w2 = True \<and> (\<forall>tm \<in> set (timers w2). t' < due tm))"
    and early: "\<forall>t'. t' < 1000 + 500 \<longrightarrow> due_timers t' sample_world = [] \<longrightarrow>
        (\<exists>w2. elapse sample_js t' w1 = Inr w2 \<and> isPlaying w2 = False
           \<and> \<lparr>due = 1000 + 500, callback = SetIsPlayingTrue\<rparr> \<in> set (timers w2))"
    by blast
  from late [rule_format, of 1500]
  have a: "\<exists>w2. elapse sample_js 1500 w1 = Inr w2 \<and> isPlaying w2 = True" by auto
  have "due_timers 1499 sample_world = []" by (simp add: due_timers_def sample_world_def)
  with early [rule_format, of 1499]
  have b: "\<exists>w2. elapse sample_js 1499 w1 = Inr w2 \<and> isPlaying w2 = False" by auto
  from toggle obtain wn where
    wn: "run sample_js (map (\<lambda>t. (t, ClickTestBatch)) [1000, 1200]) sample_world = Inr wn"
    and all_due: "\<forall>T. (\<forall>t \<in> set [1000, 1200 :: nat]. t + 500 \<le> T) \<longrightarrow>
        length (due_timers T wn) = length (due_timers T sample_world) + length [1000, 1200 :: nat]"
    by blast
  have "\<forall>t \<in> set [1000, 1200 :: nat]. t + 500 \<le> 1700" by simp
  with all_due have "length (due_timers 1700 wn)
      = length (due_timers 1700 sample_world) + length [1000, 1200 :: nat]"
    by blast
  then have "length (due_timers 1700 wn) = 2"
    by (simp add: due_timers_def sample_world_def)
  with wn have c: "\<exists>wn. run sample_js [(1000, ClickTestBatch), (1200, ClickTestBatch)]
      sample_world = Inr wn \<and> length (due_timers 1700 wn) = 2"
    by auto
  from w1 a b c show ?thesis by blast
qed

text \<open>
  C7. Whenever the \<^verbatim>\<open>ended\<close> callback is handled (in any state, at any time), the
  handler returns normally with the playing flag false and with a new entry at the
  head of the log whose event name is \<^verbatim>\<open>onEnded\<close> and whose data is \<^verbatim>\<open>{}\<close>; the rest of
  the log is the log before, cut to keep 50 entries.
\<close>

theorem ended_logs_and_pauses:
  "\<exists>w'. handle js t OnEnded w = Inr w' \<and> handleEnded js t w = Inr w'
      \<and> isPlaying w' = False
      \<and> callbackLogs w' = take 50 (logEntry js t ''onEnded'' [] # callbackLogs w)
      \<and> hd (callbackLogs w') = logEntry js t ''onEnded'' []
      \<and> event (hd (callbackLogs w')) = ''onEnded''
      \<and> data (hd (callbackLogs w')) = ''{}''
      \<and> tl (callbackLogs w') = take 49 (callbackLogs w)"
  by (simp add: handle_def handleEnded_def setIsPlaying_eq addLog_def logEntry_def
      stringify_data_def)

text \<open>
  C8. The \<^verbatim>\<open>Clear Logs\<close> button leaves the empty log whatever the log held and changes
  nothing else; the log is then still empty after every run of events none of which
  appends to it.
\<close>

theorem clear_empties_log:
  "callbackLogs (clearLogs w) = []
 \<and> clearLogs w = w\<lparr>callbackLogs := []\<rparr>
 \<and> handle js t ClickClearLogs w = Inr (clearLogs w)
 \<and> (\<forall>es. (\<forall>te \<in> set es. \<not> logging (snd te)) \<longrightarrow>
        (\<exists>w'. run js es (clearLogs w) = Inr w' \<and> callbackLogs w' = []))"
proof (intro conjI allI impI)
  fix es :: "(nat \<times> ('a, 'b) event) list"
  assume "\<forall>te \<in> set es. \<not> logging (snd te)"
  then show "\<exists>w'. run js es (clearLogs w) = Inr w' \<and> callbackLogs w' = []"
    by (intro run_quiet_log) (simp_all add: clearLogs_def)
qed (simp_all add: clearLogs_def handle_def)

theorem clear_empties_log_witness:
  "callbackLogs (handlePlay sample_js 1000 sample_world) \<noteq> []
 \<and> callbackLogs (clearLogs (handlePlay sample_js 1000 sample_world)) = []
 \<and> (\<exists>w'. run sample_js [(2000, CheckMuted True), (3000, ClickTestBatch), (3500, TimersDue)]
           (clearLogs (handlePlay sample_js 1000 sample_world)) = Inr w'
        \<and> callbackLogs w' = [])"
proof -
  let ?es = "[(2000, CheckMuted True), (3000, ClickTestBatch), (3500, TimersDue)]
    :: (nat \<times> (jsnumber, string) event) list"
  note clear = clear_empties_log [of "handlePlay sample_js 1000 sample_world" sample_js 1500]
  have quiet: "\<forall>te \<in> set ?es. \<not> logging (snd te)" by simp
  with clear have "\<exists>w'. run sample_js ?es (clearLogs (handlePlay sample_js 1000 sample_world))
      = Inr w' \<and> callbackLogs w' = []"
    by blast
  moreover have "callbackLogs (handlePlay sample_js 1000 sample_world) \<noteq> []"
    by (simp add: handlePlay_def addLog_def)
  moreover from clear have "callbackLogs (clearLogs (handlePlay sample_js 1000 sample_world)) = []"
    by blast
  ultimately show ?thesis by blast
qed

text \<open>
  C9. After a progress callback the snapshot is the four reported fields with
  \<^verbatim>\<open>duration\<close> set to the reported \<^verbatim>\<open>loaded\<close> (also when a duration was reported before);
  the duration callback changes the log only, and no event other than a progress
  callback changes the snapshot.
\<close>

theorem progress_sets_duration_to_loaded:
  "playerState (handleProgress js t p w) =
     \<lparr>played = played p, playedSeconds = playedSeconds p, loaded = loaded p,
      loadedSeconds = loadedSeconds p, duration = loaded p\<rparr>
 \<and> duration (playerState (handleProgress js t p w)) = loaded p
 \<and> duration (playerState (handleProgress js t p (handleDuration js t0 d w))) = loaded p
 \<and> handle js t (OnProgress p) w = Inr (handleProgress js t p w)
 \<and> handleDuration js t d w =
     w\<lparr>callbackLogs :=
         take 50 (logEntry js t ''onDuration'' [(''duration'', JNumber d)] # callbackLogs w)\<rparr>
 \<and> playerState (handleDuration js t d w) = playerState w
 \<and> handle js t (OnDuration d) w = Inr (handleDuration js t d w)
 \<and> (\<forall>e t' w0 w'. (\<forall>q. e \<noteq> OnProgress q) \<longrightarrow> handle js t' e w0 = Inr w' \<longrightarrow>
        playerState w' = playerState w0)"
proof (intro conjI allI impI)
  fix e :: "('a, 'b) event" and t' and w0 w' :: "'a world"
  assume "\<forall>q. e \<noteq> OnProgress q" and "handle js t' e w0 = Inr w'"
  then show "playerState w' = playerState w0" by (rule handle_playerState)
qed (simp_all add: handleProgress_def handleDuration_def addLog_def handle_def)

theorem progress_sets_duration_to_loaded_witness:
  "\<exists>w'. handle sample_js 5000 (OnDuration (double_of_decimal False 212 0)) sample_world = Inr w'
      \<and> duration (playerState w') = Finite False 0 0
      \<and> duration (playerState (handleProgress sample_js 6000
           \<lparr>played = hundredths 10, playedSeconds = double_of_decimal False 212 (- 1),
            loaded = hundredths 35, loadedSeconds = double_of_decimal False 742 (- 1)\<rparr> w'))
          = hundredths 35"
proof -
  let ?d = "double_of_decimal False 212 0"
  note progress = progress_sets_duration_to_loaded [of sample_js 6000
      "\<lparr>played = hundredths 10, playedSeconds = double_of_decimal False 212 (- 1),
        loaded = hundredths 35, loadedSeconds = double_of_decimal False 742 (- 1)\<rparr>"
      "handleDuration sample_js 5000 ?d sample_world" 5000 ?d]
  have step: "handle sample_js 5000 (OnDuration ?d) sample_world
      = Inr (handleDuration sample_js 5000 ?d sample_world)"
    by (simp add: handle_def)
  have "\<forall>q. OnDuration ?d \<noteq> (OnProgress q :: (jsnumber, string) event)" by simp
  with progress step
  have "playerState (handleDuration sample_js 5000 ?d sample_world) = playerState sample_world"
    by blast
  then have "duration (playerState (handleDuration sample_js 5000 ?d sample_world))
      = Finite False 0 0"
    by (simp add: sample_world_def)
  with progress step show ?thesis by simp
qed

text \<open>
  C10. With no player instance in the ref, \<^verbatim>\<open>seekTo\<close> returns the world it was given:
  no seek request, no log entry, nothing else changed, and so do the four seek
  buttons. With an instance in the ref, the instance receives the seek request and the
  log receives a \<^verbatim>\<open>Manual seekTo\<close> entry carrying the requested position; nothing else
  changes.
\<close>

theorem seekTo_only_with_player:
  "(playerRef w = None \<longrightarrow>
      seekTo js t seconds w = w
    \<and> handle js t ClickSeekStart w = Inr w \<and> handle js t ClickSeek30 w = Inr w
    \<and> handle js t ClickSeek60 w = Inr w \<and> handle js t ClickSeekMiddle w = Inr w)
 \<and> (\<forall>p. playerRef w = Some p \<longrightarrow>
      seekTo js t seconds w =
        w\<lparr>playerRef := Some (p\<lparr>seekRequests := seekRequests p @ [seconds]\<rparr>),
          callbackLogs :=
            take 50 (logEntry js t ''Manual seekTo'' [(''seconds'', JNumber seconds)]
                     # callbackLogs w)\<rparr>)"
  by (simp add: seekTo_eq handle_def seekToMiddle_def)

theorem seekTo_only_with_player_witness:
  "seekTo sample_js 1000 (double_of_decimal False 30 0) sample_world = sample_world
 \<and> handle sample_js 1000 ClickSeek30 sample_world = Inr sample_world
 \<and> playerRef (seekTo sample_js 1000 (double_of_decimal False 30 0)
       (sample_world\<lparr>playerRef := Some sample_player\<rparr>))
     = Some (sample_player\<lparr>seekRequests := [double_of_decimal False 30 0]\<rparr>)
 \<and> map event (callbackLogs
       (seekTo sample_js 1000 (double_of_decimal False 30 0)
          (sample_world\<lparr>playerRef := Some sample_player\<rparr>)))
     = [''Manual seekTo'']"
  using seekTo_only_with_player [of sample_world sample_js 1000 "double_of_decimal False 30 0"]
    seekTo_only_with_player [of "sample_world\<lparr>playerRef := Some sample_player\<rparr>"
      sample_js 1000 "double_of_decimal False 30 0"]
  by (simp add: sample_world_def sample_player_def logEntry_def)

end
